theory Spec2Isabelle
  imports Main "HOL-Library.Word"
begin

unbundle bit_operations_syntax

section \<open>Local constant propagation (opt/constant\_propagation/LocalConstProp.cpp)\<close>

text \<open>
  The pass walks one basic block, keeps an abstract environment of the registers, and
  records replacements for branches and instructions whose outcome is fixed. The
  functions of LocalConstProp.cpp are embedded below under their own names. The
  instruction container (IRInstruction.h, IROpcode.h) and the abstract domain
  (GlobalConstProp.h) are used by the file but are not part of it; they are modelled from
  the specification's data model and interface list, and every such definition says so.
\<close>

subsection \<open>Machine types\<close>

type_synonym reg = "16 word"
type_synonym int32 = "32 word"
type_synonym int64 = "64 word"

definition INT32_MAX :: int32 where
  "INT32_MAX = 0x7FFFFFFF"

definition INT32_MIN :: int32 where
  "INT32_MIN = 0x80000000"

definition INT64_MAX :: int64 where
  "INT64_MAX = 0x7FFFFFFFFFFFFFFF"

definition INT64_MIN :: int64 where
  "INT64_MIN = 0x8000000000000000"

text \<open>
  Every abort of the program is a value: \<open>NotAnIf\<close> is the \<open>always_assert_log\<close> at the
  end of \<open>eval_if\<close>; \<open>NoOperand\<close> is a read of a source or destination register that the
  instruction does not have; \<open>NotAConstant\<close> is a read of the constant of a register that
  does not hold one of the requested width.
\<close>

datatype fault = NotAnIf | NoOperand | NotAConstant

subsection \<open>Instructions\<close>

text \<open>
  The opcodes that LocalConstProp.cpp names, and \<open>OPCODE_OTHER\<close> for every other
  opcode of the instruction set: numbered, so that there are many of them, and with the
  one entry of the opcode table of IROpcode.h that the pass reads of such an opcode,
  whether its destination is wide.
\<close>

datatype IROpcode =
    OPCODE_NOP
  | OPCODE_GOTO
  | OPCODE_CONST
  | OPCODE_CONST_WIDE
  | OPCODE_MOVE
  | OPCODE_MOVE_OBJECT
  | OPCODE_MOVE_WIDE
  | OPCODE_CMPL_FLOAT
  | OPCODE_CMPG_FLOAT
  | OPCODE_CMPL_DOUBLE
  | OPCODE_CMPG_DOUBLE
  | OPCODE_CMP_LONG
  | OPCODE_ADD_INT_LIT16
  | OPCODE_ADD_INT_LIT8
  | OPCODE_IF_EQ
  | OPCODE_IF_NE
  | OPCODE_IF_LT
  | OPCODE_IF_GE
  | OPCODE_IF_GT
  | OPCODE_IF_LE
  | OPCODE_IF_EQZ
  | OPCODE_IF_NEZ
  | OPCODE_IF_LTZ
  | OPCODE_IF_GEZ
  | OPCODE_IF_GTZ
  | OPCODE_IF_LEZ
  | OPCODE_OTHER nat bool

text \<open>
  Modelled from the spec: IRInstruction.h is not among the sources. The data model gives
  an instruction an opcode tag, zero or more source registers, zero or one destination
  register, an embedded literal and, for a branch, a target label.
\<close>

type_synonym label = nat

record IRInstruction =
  opcode :: IROpcode
  srcs :: "reg list"
  dest_reg :: "reg option"
  literal :: int64
  target :: "label option"

text \<open>
  Modelled from the spec: the width of the destination is a property of the opcode
  (IROpcode.h, not among the sources). Of the opcodes that the pass names, the wide
  literal load and the wide copy write a wide register ("CONST for narrow, CONST_WIDE for
  wide"); the narrow load and copies, the add and the compares, whose result is the
  narrow -1, 0 or +1, write a narrow one; a branch, \<open>GOTO\<close> and \<open>NOP\<close> have no
  destination.
\<close>

definition opcode_dest_is_wide :: "IROpcode \<Rightarrow> bool" where
  "opcode_dest_is_wide op =
     (case op of
        OPCODE_CONST_WIDE \<Rightarrow> True
      | OPCODE_MOVE_WIDE \<Rightarrow> True
      | OPCODE_OTHER n w \<Rightarrow> w
      | _ \<Rightarrow> False)"

definition srcs_size :: "IRInstruction \<Rightarrow> nat" where
  "srcs_size insn = length (srcs insn)"

definition dests_size :: "IRInstruction \<Rightarrow> nat" where
  "dests_size insn = (case dest_reg insn of None \<Rightarrow> 0 | Some _ \<Rightarrow> 1)"

definition dest_is_wide :: "IRInstruction \<Rightarrow> bool" where
  "dest_is_wide insn = opcode_dest_is_wide (opcode insn)"

definition get_literal :: "IRInstruction \<Rightarrow> int64" where
  "get_literal insn = literal insn"

text \<open>Reading an operand that is not there is a fault, not an unspecified register.\<close>

definition src :: "IRInstruction \<Rightarrow> nat \<Rightarrow> fault + reg" where
  "src insn i = (if i < length (srcs insn) then Inr (srcs insn ! i) else Inl NoOperand)"

definition dest :: "IRInstruction \<Rightarrow> fault + reg" where
  "dest insn = (case dest_reg insn of None \<Rightarrow> Inl NoOperand | Some d \<Rightarrow> Inr d)"

text \<open>
  \<open>new IRInstruction(op)\<close>: the constructor is given the opcode only, so the fresh
  instruction has no operand, no target and a zero literal until \<open>set_literal\<close> and
  \<open>set_dest\<close> fill them in.
\<close>

definition new_IRInstruction :: "IROpcode \<Rightarrow> IRInstruction" where
  "new_IRInstruction op =
     \<lparr>opcode = op, srcs = [], dest_reg = None, literal = 0, target = None\<rparr>"

definition set_literal :: "IRInstruction \<Rightarrow> int64 \<Rightarrow> IRInstruction" where
  "set_literal insn v = insn\<lparr>literal := v\<rparr>"

definition set_dest :: "IRInstruction \<Rightarrow> reg \<Rightarrow> IRInstruction" where
  "set_dest insn d = insn\<lparr>dest_reg := Some d\<rparr>"

subsection \<open>Abstract values and the environment\<close>

text \<open>
  Modelled from the spec: GlobalConstProp.h is not among the sources. The data model's
  abstract value is the tagged union Top, Bottom, NarrowConstant(i32), WideConstant(i64),
  Interval(min, max, optional exact). In the source the type is called
  \<open>SignedConstantDomain\<close>; \<open>SignedConstantDomain(0, ConstantValue::NARROW)\<close> is
  \<open>NarrowConstant 0\<close>.
\<close>

datatype AbstractValue =
    Top
  | Bottom
  | NarrowConstant int32
  | WideConstant int64
  | Interval int64 int64 "int64 option"

text \<open>
  Modelled from the spec: the invariant of the data model, "Interval bounds always
  satisfy min \<le> max; an exact point implies min = max = point".
\<close>

definition value_invariant :: "AbstractValue \<Rightarrow> bool" where
  "value_invariant v =
     (case v of
        Interval lo hi ex \<Rightarrow>
          lo \<le>s hi \<and> (case ex of None \<Rightarrow> True | Some p \<Rightarrow> lo = p \<and> hi = p)
      | _ \<Rightarrow> True)"

text \<open>
  Modelled from the spec: \<open>constant_domain\<close>, \<open>min_element\<close> and \<open>max_element\<close> are
  the three readings of an abstract value that \<open>eval_if\<close> takes. \<open>constant_domain\<close> is
  \<open>Some c\<close> (\<open>is_value\<close>, with \<open>value().constant() = c\<close> as a 64-bit integer) exactly
  for a value pinned to one literal: a narrow constant (sign-extended), a wide constant,
  or an interval with its exact point. The bounds of a constant are the constant, those
  of an interval its two ends, those of Top the whole 64-bit range, and those of Bottom,
  which stands for no value, the empty range.
\<close>

definition constant_domain :: "AbstractValue \<Rightarrow> int64 option" where
  "constant_domain v =
     (case v of
        NarrowConstant c \<Rightarrow> Some (scast c)
      | WideConstant c \<Rightarrow> Some c
      | Interval lo hi ex \<Rightarrow> ex
      | _ \<Rightarrow> None)"

definition min_element :: "AbstractValue \<Rightarrow> int64" where
  "min_element v =
     (case v of
        Top \<Rightarrow> INT64_MIN
      | Bottom \<Rightarrow> INT64_MAX
      | NarrowConstant c \<Rightarrow> scast c
      | WideConstant c \<Rightarrow> c
      | Interval lo hi ex \<Rightarrow> lo)"

definition max_element :: "AbstractValue \<Rightarrow> int64" where
  "max_element v =
     (case v of
        Top \<Rightarrow> INT64_MAX
      | Bottom \<Rightarrow> INT64_MIN
      | NarrowConstant c \<Rightarrow> scast c
      | WideConstant c \<Rightarrow> c
      | Interval lo hi ex \<Rightarrow> hi)"

text \<open>
  Modelled from the spec: the environment maps each register to one abstract value,
  width-tagged (narrow or wide); a fresh one binds every register to Top, and
  \<open>is_bottom\<close> is a flag of the whole environment. A binding is the pair of the tag
  (\<open>True\<close> for wide) and the value. An unreachable environment binds nothing: every
  register reads as Bottom and a write leaves it unreachable.
\<close>

type_synonym binding = "bool \<times> AbstractValue"

datatype ConstPropEnvironment =
    EnvBottom
  | Env "reg \<Rightarrow> binding"

definition fresh_env :: ConstPropEnvironment where
  "fresh_env = Env (\<lambda>r. (False, Top))"

definition is_bottom :: "ConstPropEnvironment \<Rightarrow> bool" where
  "is_bottom env = (case env of EnvBottom \<Rightarrow> True | Env m \<Rightarrow> False)"

definition get :: "ConstPropEnvironment \<Rightarrow> reg \<Rightarrow> AbstractValue" where
  "get env r = (case env of EnvBottom \<Rightarrow> Bottom | Env m \<Rightarrow> snd (m r))"

definition width_tag :: "ConstPropEnvironment \<Rightarrow> reg \<Rightarrow> bool" where
  "width_tag env r = (case env of EnvBottom \<Rightarrow> False | Env m \<Rightarrow> fst (m r))"

definition set_value ::
  "ConstPropEnvironment \<Rightarrow> reg \<Rightarrow> bool \<Rightarrow> AbstractValue \<Rightarrow> ConstPropEnvironment" where
  "set_value env r is_wide v =
     (case env of EnvBottom \<Rightarrow> EnvBottom | Env m \<Rightarrow> Env (m(r := (is_wide, v))))"

text \<open>
  Modelled from the spec: the operations of \<open>ConstPropEnvUtil\<close> listed in the
  environment interface. \<open>set_narrow\<close> writes a narrow binding, \<open>set_wide\<close> a wide
  one, and \<open>set_top\<close> writes Top tagged with the width it is given. \<open>get_narrow\<close> and
  \<open>get_wide\<close> are read by the source only behind \<open>is_narrow_constant\<close> and
  \<open>is_wide_constant\<close>; outside that guard the model has no constant to give.
\<close>

definition set_narrow :: "ConstPropEnvironment \<Rightarrow> reg \<Rightarrow> int32 \<Rightarrow> ConstPropEnvironment" where
  "set_narrow env r c = set_value env r False (NarrowConstant c)"

definition set_wide :: "ConstPropEnvironment \<Rightarrow> reg \<Rightarrow> int64 \<Rightarrow> ConstPropEnvironment" where
  "set_wide env r c = set_value env r True (WideConstant c)"

definition set_top :: "ConstPropEnvironment \<Rightarrow> reg \<Rightarrow> bool \<Rightarrow> ConstPropEnvironment" where
  "set_top env r is_wide = set_value env r is_wide Top"

definition is_narrow_constant :: "ConstPropEnvironment \<Rightarrow> reg \<Rightarrow> bool" where
  "is_narrow_constant env r = (case get env r of NarrowConstant c \<Rightarrow> True | _ \<Rightarrow> False)"

definition is_wide_constant :: "ConstPropEnvironment \<Rightarrow> reg \<Rightarrow> bool" where
  "is_wide_constant env r = (case get env r of WideConstant c \<Rightarrow> True | _ \<Rightarrow> False)"

definition get_narrow :: "ConstPropEnvironment \<Rightarrow> reg \<Rightarrow> fault + int32" where
  "get_narrow env r = (case get env r of NarrowConstant c \<Rightarrow> Inr c | _ \<Rightarrow> Inl NotAConstant)"

definition get_wide :: "ConstPropEnvironment \<Rightarrow> reg \<Rightarrow> fault + int64" where
  "get_wide env r = (case get env r of WideConstant c \<Rightarrow> Inr c | _ \<Rightarrow> Inl NotAConstant)"

text \<open>
  Modelled from the spec: \<open>get_constant_value<Stored>\<close> of GlobalConstProp.h, which
  \<open>analyze_compare\<close> calls. A compare "requires both operands to be exact constants of
  the declared operand width": the 32-bit instance answers for a narrow constant, the
  64-bit instance for a wide one, and \<open>None\<close> is the \<open>false\<close> return.
\<close>

definition get_constant_value_narrow :: "ConstPropEnvironment \<Rightarrow> reg \<Rightarrow> int32 option" where
  "get_constant_value_narrow env r =
     (case get env r of NarrowConstant c \<Rightarrow> Some c | _ \<Rightarrow> None)"

definition get_constant_value_wide :: "ConstPropEnvironment \<Rightarrow> reg \<Rightarrow> int64 option" where
  "get_constant_value_wide env r =
     (case get env r of WideConstant c \<Rightarrow> Some c | _ \<Rightarrow> None)"

subsection \<open>Floating-point operands as bit patterns\<close>

text \<open>
  \<open>reinterpret_bits<Operand, Stored>\<close> copies the stored bits into a value of the
  operand type of the same size, so an operand is represented by its bits. For
  \<open>float\<close> the bits are an IEEE-754 binary32 number: the sign in bit 31, a biased
  exponent of 8 bits and a fraction of 23 bits. \<open>std::isnan\<close> holds when the exponent
  field is all ones and the fraction is not zero. A number with exponent field \<open>e\<close>
  and fraction \<open>m\<close> has the magnitude \<open>m * 2^(-149)\<close> when \<open>e = 0\<close> (zero and the
  subnormals) and \<open>(2^23 + m) * 2^(e - 150)\<close> otherwise; \<open>float_value\<close> is the
  signed number times \<open>2^149\<close>, an integer. The two zeros have the value 0, and an
  infinity (exponent field 255, fraction 0) gets the value of the binade above the
  largest finite number, so that it is beyond every finite number on its side. The
  comparisons of C++ on two numbers that are not NaN are the comparisons of their
  values, and a comparison with a NaN operand is false.
\<close>

definition float_exponent :: "int32 \<Rightarrow> nat" where
  "float_exponent w = unat (drop_bit 23 w AND 0xFF)"

definition float_fraction :: "int32 \<Rightarrow> nat" where
  "float_fraction w = unat (w AND 0x7FFFFF)"

definition float_isnan :: "int32 \<Rightarrow> bool" where
  "float_isnan w = (float_exponent w = 255 \<and> float_fraction w \<noteq> 0)"

definition float_value :: "int32 \<Rightarrow> int" where
  "float_value w =
     (let magnitude =
            (if float_exponent w = 0 then float_fraction w
             else (2 ^ 23 + float_fraction w) * 2 ^ (float_exponent w - 1))
      in if bit w 31 then - int magnitude else int magnitude)"

definition float_greater :: "int32 \<Rightarrow> int32 \<Rightarrow> bool" where
  "float_greater l r = (\<not> float_isnan l \<and> \<not> float_isnan r \<and> float_value r < float_value l)"

definition float_equal :: "int32 \<Rightarrow> int32 \<Rightarrow> bool" where
  "float_equal l r = (\<not> float_isnan l \<and> \<not> float_isnan r \<and> float_value l = float_value r)"

text \<open>
  \<open>double\<close> is binary64: the sign in bit 63, 11 bits of exponent and 52 of fraction;
  \<open>double_value\<close> is the signed number times \<open>2^1074\<close>.
\<close>

definition double_exponent :: "int64 \<Rightarrow> nat" where
  "double_exponent w = unat (drop_bit 52 w AND 0x7FF)"

definition double_fraction :: "int64 \<Rightarrow> nat" where
  "double_fraction w = unat (w AND 0xFFFFFFFFFFFFF)"

definition double_isnan :: "int64 \<Rightarrow> bool" where
  "double_isnan w = (double_exponent w = 2047 \<and> double_fraction w \<noteq> 0)"

definition double_value :: "int64 \<Rightarrow> int" where
  "double_value w =
     (let magnitude =
            (if double_exponent w = 0 then double_fraction w
             else (2 ^ 52 + double_fraction w) * 2 ^ (double_exponent w - 1))
      in if bit w 63 then - int magnitude else int magnitude)"

definition double_greater :: "int64 \<Rightarrow> int64 \<Rightarrow> bool" where
  "double_greater l r =
     (\<not> double_isnan l \<and> \<not> double_isnan r \<and> double_value r < double_value l)"

definition double_equal :: "int64 \<Rightarrow> int64 \<Rightarrow> bool" where
  "double_equal l r =
     (\<not> double_isnan l \<and> \<not> double_isnan r \<and> double_value l = double_value r)"

text \<open>The \<open>int64_t\<close> operand of \<open>CMP_LONG\<close>: signed order, and no NaN.\<close>

definition long_isnan :: "int64 \<Rightarrow> bool" where
  "long_isnan w = False"

definition long_greater :: "int64 \<Rightarrow> int64 \<Rightarrow> bool" where
  "long_greater l r = (r <s l)"

definition long_equal :: "int64 \<Rightarrow> int64 \<Rightarrow> bool" where
  "long_equal l r = (l = r)"

subsection \<open>The analyzer\<close>

definition is_compare_floating :: "IROpcode \<Rightarrow> bool" where
  "is_compare_floating op =
     (op = OPCODE_CMPG_DOUBLE \<or> op = OPCODE_CMPL_DOUBLE \<or>
      op = OPCODE_CMPG_FLOAT \<or> op = OPCODE_CMPL_FLOAT)"

definition is_less_than_bias :: "IROpcode \<Rightarrow> bool" where
  "is_less_than_bias op = (op = OPCODE_CMPL_DOUBLE \<or> op = OPCODE_CMPL_FLOAT)"

text \<open>
  \<open>analyze_compare<Operand, Stored>\<close>. The template's two types are the parameters:
  \<open>get_constant_value\<close> is the instance for \<open>Stored\<close>, and \<open>is_nan_op\<close>, \<open>greater_op\<close>
  and \<open>equal_op\<close> are \<open>std::isnan\<close>, greater-than and \<open>==\<close> of \<open>Operand\<close> on the stored
  bits. The result is an \<open>int32_t\<close>.
\<close>

definition compare_result ::
  "('s \<Rightarrow> bool) \<Rightarrow> ('s \<Rightarrow> 's \<Rightarrow> bool) \<Rightarrow> ('s \<Rightarrow> 's \<Rightarrow> bool) \<Rightarrow> IROpcode \<Rightarrow> 's \<Rightarrow> 's \<Rightarrow> int32" where
  "compare_result is_nan_op greater_op equal_op op l_val r_val =
     (if is_compare_floating op \<and> (is_nan_op l_val \<or> is_nan_op r_val) then
        (if is_less_than_bias op then - 1 else 1)
      else if greater_op l_val r_val then 1
      else if equal_op l_val r_val then 0
      else - 1)"

definition analyze_compare ::
  "(ConstPropEnvironment \<Rightarrow> reg \<Rightarrow> 's option) \<Rightarrow>
   ('s \<Rightarrow> bool) \<Rightarrow> ('s \<Rightarrow> 's \<Rightarrow> bool) \<Rightarrow> ('s \<Rightarrow> 's \<Rightarrow> bool) \<Rightarrow>
   IRInstruction \<Rightarrow> ConstPropEnvironment \<Rightarrow> fault + ConstPropEnvironment" where
  "analyze_compare get_constant_value is_nan_op greater_op equal_op inst current_state =
     (case src inst 0 of
        Inl e \<Rightarrow> Inl e
      | Inr s0 \<Rightarrow>
     (case src inst 1 of
        Inl e \<Rightarrow> Inl e
      | Inr s1 \<Rightarrow>
     (case dest inst of
        Inl e \<Rightarrow> Inl e
      | Inr d \<Rightarrow>
     (case get_constant_value current_state s0 of
        None \<Rightarrow> Inr (set_top current_state d False)
      | Some left_value \<Rightarrow>
     (case get_constant_value current_state s1 of
        None \<Rightarrow> Inr (set_top current_state d False)
      | Some right_value \<Rightarrow>
          Inr (set_narrow current_state d
                 (compare_result is_nan_op greater_op equal_op (opcode inst)
                    left_value right_value)))))))"

text \<open>
  \<open>addition_out_of_bounds\<close> on \<open>int32_t\<close>. The subtractions are those of the source;
  each is read only under the sign test that guards it.
\<close>

definition addition_out_of_bounds :: "int32 \<Rightarrow> int32 \<Rightarrow> bool" where
  "addition_out_of_bounds a b =
     ((0 <s b \<and> INT32_MAX - b <s a) \<or> (b <s 0 \<and> a <s INT32_MIN - b))"

text \<open>The lambda \<open>add_in_bounds\<close> of the add-with-immediate case, closed over \<open>lit\<close>.\<close>

definition add_in_bounds :: "int32 \<Rightarrow> int32 \<Rightarrow> int32 option" where
  "add_in_bounds lit v = (if addition_out_of_bounds lit v then None else Some (v + lit))"

text \<open>
  \<open>analyze_non_branch\<close>. The two transforms default to the identity in the header;
  the callers below pass \<open>Some\<close> for it. \<open>mark_unknown\<close> is \<open>set_top\<close> with the
  \<open>is_wide\<close> of the call.
\<close>

definition analyze_non_branch ::
  "IRInstruction \<Rightarrow> ConstPropEnvironment \<Rightarrow> bool \<Rightarrow>
   (int32 \<Rightarrow> int32 option) \<Rightarrow> (int64 \<Rightarrow> int64 option) \<Rightarrow> fault + ConstPropEnvironment" where
  "analyze_non_branch inst current_state is_wide value_transform wide_value_transform =
     (case src inst 0 of
        Inl e \<Rightarrow> Inl e
      | Inr s \<Rightarrow>
     (case dest inst of
        Inl e \<Rightarrow> Inl e
      | Inr dst \<Rightarrow>
        if \<not> is_wide \<and> is_narrow_constant current_state s then
          (case get_narrow current_state s of
             Inl e \<Rightarrow> Inl e
           | Inr c \<Rightarrow>
             (case value_transform c of
                None \<Rightarrow> Inr (set_top current_state dst is_wide)
              | Some v \<Rightarrow> Inr (set_narrow current_state dst v)))
        else if is_wide \<and> is_wide_constant current_state s then
          (case get_wide current_state s of
             Inl e \<Rightarrow> Inl e
           | Inr c \<Rightarrow>
             (case wide_value_transform c of
                None \<Rightarrow> Inr (set_top current_state dst is_wide)
              | Some v \<Rightarrow> Inr (set_wide current_state dst v)))
        else Inr (set_top current_state dst is_wide)))"

record Config =
  fold_arithmetic :: bool
  replace_moves_with_consts :: bool

text \<open>
  The object of the pass: its configuration, the replacement records in the order they
  were appended, and the two counters (\<open>size_t\<close>; a count of instructions of one
  method).
\<close>

record LocalConstantPropagation =
  m_config :: Config
  m_insn_replacements :: "(IRInstruction \<times> IRInstruction) list"
  m_branch_propagated :: nat
  m_materialized_consts :: nat

text \<open>The \<open>default\<close> label of \<open>analyze_instruction\<close>, which the add case falls into.\<close>

definition analyze_default :: "IRInstruction \<Rightarrow> ConstPropEnvironment \<Rightarrow> fault + ConstPropEnvironment" where
  "analyze_default inst current_state =
     (if dests_size inst \<noteq> 0 then
        (case dest inst of
           Inl e \<Rightarrow> Inl e
         | Inr d \<Rightarrow> Inr (set_top current_state d (dest_is_wide inst)))
      else Inr current_state)"

text \<open>
  \<open>analyze_instruction\<close>. \<open>set_narrow\<close> takes an \<open>int32_t\<close>, so the 64-bit literal of
  \<open>CONST\<close> and of the add is cut to its low 32 bits (\<open>ucast\<close>).
\<close>

definition analyze_instruction ::
  "LocalConstantPropagation \<Rightarrow> IRInstruction \<Rightarrow> ConstPropEnvironment \<Rightarrow> fault + ConstPropEnvironment" where
  "analyze_instruction self inst current_state =
     (case opcode inst of
        OPCODE_CONST \<Rightarrow>
          (case dest inst of
             Inl e \<Rightarrow> Inl e
           | Inr d \<Rightarrow> Inr (set_narrow current_state d (ucast (get_literal inst))))
      | OPCODE_CONST_WIDE \<Rightarrow>
          (case dest inst of
             Inl e \<Rightarrow> Inl e
           | Inr d \<Rightarrow> Inr (set_wide current_state d (get_literal inst)))
      | OPCODE_MOVE \<Rightarrow> analyze_non_branch inst current_state False Some Some
      | OPCODE_MOVE_OBJECT \<Rightarrow> analyze_non_branch inst current_state False Some Some
      | OPCODE_MOVE_WIDE \<Rightarrow> analyze_non_branch inst current_state True Some Some
      | OPCODE_CMPL_FLOAT \<Rightarrow>
          analyze_compare get_constant_value_narrow float_isnan float_greater float_equal
            inst current_state
      | OPCODE_CMPG_FLOAT \<Rightarrow>
          analyze_compare get_constant_value_narrow float_isnan float_greater float_equal
            inst current_state
      | OPCODE_CMPL_DOUBLE \<Rightarrow>
          analyze_compare get_constant_value_wide double_isnan double_greater double_equal
            inst current_state
      | OPCODE_CMPG_DOUBLE \<Rightarrow>
          analyze_compare get_constant_value_wide double_isnan double_greater double_equal
            inst current_state
      | OPCODE_CMP_LONG \<Rightarrow>
          analyze_compare get_constant_value_wide long_isnan long_greater long_equal
            inst current_state
      | OPCODE_ADD_INT_LIT16 \<Rightarrow>
          (if fold_arithmetic (m_config self) then
             analyze_non_branch inst current_state False
               (add_in_bounds (ucast (get_literal inst))) Some
           else analyze_default inst current_state)
      | OPCODE_ADD_INT_LIT8 \<Rightarrow>
          (if fold_arithmetic (m_config self) then
             analyze_non_branch inst current_state False
               (add_in_bounds (ucast (get_literal inst))) Some
           else analyze_default inst current_state)
      | _ \<Rightarrow> analyze_default inst current_state)"

subsection \<open>The branch feasibility evaluator\<close>

text \<open>
  \<open>eval_if\<close>: \<open>Inr None\<close> is \<open>boost::none\<close>, \<open>Inr (Some True)\<close> always taken,
  \<open>Inr (Some False)\<close> never taken, and \<open>Inl NotAnIf\<close> the failed assertion of the
  \<open>default\<close> label. The operands are read before the \<open>switch\<close>, as in the source.
\<close>

definition eval_if :: "IRInstruction \<Rightarrow> ConstPropEnvironment \<Rightarrow> fault + bool option" where
  "eval_if insn state =
     (if is_bottom state then Inr None
      else
        (case src insn 0 of
           Inl e \<Rightarrow> Inl e
         | Inr s0 \<Rightarrow>
           (let op = opcode insn;
                scd_left = get state s0;
                scd_right = (if 1 < srcs_size insn then get state (srcs insn ! 1)
                             else NarrowConstant 0)
            in
              if op = OPCODE_IF_EQ \<or> op = OPCODE_IF_NE \<or>
                 op = OPCODE_IF_EQZ \<or> op = OPCODE_IF_NEZ then
                (case constant_domain scd_left of
                   None \<Rightarrow> Inr None
                 | Some cl \<Rightarrow>
                   (case constant_domain scd_right of
                      None \<Rightarrow> Inr None
                    | Some cr \<Rightarrow>
                        if op = OPCODE_IF_EQ \<or> op = OPCODE_IF_EQZ then Inr (Some (cl = cr))
                        else Inr (Some (cl \<noteq> cr))))
              else if op = OPCODE_IF_LE \<or> op = OPCODE_IF_LEZ then
                (if max_element scd_left \<le>s min_element scd_right then Inr (Some True)
                 else if max_element scd_right <s min_element scd_left then Inr (Some False)
                 else Inr None)
              else if op = OPCODE_IF_LT \<or> op = OPCODE_IF_LTZ then
                (if max_element scd_left <s min_element scd_right then Inr (Some True)
                 else if max_element scd_right \<le>s min_element scd_left then Inr (Some False)
                 else Inr None)
              else if op = OPCODE_IF_GE \<or> op = OPCODE_IF_GEZ then
                (if max_element scd_right \<le>s min_element scd_left then Inr (Some True)
                 else if max_element scd_left <s min_element scd_right then Inr (Some False)
                 else Inr None)
              else if op = OPCODE_IF_GT \<or> op = OPCODE_IF_GTZ then
                (if max_element scd_right <s min_element scd_left then Inr (Some True)
                 else if max_element scd_left \<le>s min_element scd_right then Inr (Some False)
                 else Inr None)
              else Inl NotAnIf)))"

subsection \<open>The rewriter\<close>

text \<open>
  \<open>simplify_branch\<close>: the counter is incremented and the pair appended
  (\<open>emplace_back\<close>); the instruction itself is only referred to by the pair.
\<close>

definition simplify_branch ::
  "LocalConstantPropagation \<Rightarrow> IRInstruction \<Rightarrow> ConstPropEnvironment \<Rightarrow>
   fault + LocalConstantPropagation" where
  "simplify_branch self inst current_state =
     (case eval_if inst current_state of
        Inl e \<Rightarrow> Inl e
      | Inr None \<Rightarrow> Inr self
      | Inr (Some constant_branch) \<Rightarrow>
          Inr (self\<lparr>m_branch_propagated := m_branch_propagated self + 1,
                    m_insn_replacements := m_insn_replacements self @
                      [(inst, new_IRInstruction
                                (if constant_branch then OPCODE_GOTO else OPCODE_NOP))]\<rparr>))"

text \<open>
  \<open>simplify_non_branch\<close>: \<open>value\<close> is an \<open>int64_t\<close>, so the narrow constant is
  sign-extended (\<open>scast\<close>) before it becomes the literal.
\<close>

definition simplify_non_branch ::
  "LocalConstantPropagation \<Rightarrow> IRInstruction \<Rightarrow> ConstPropEnvironment \<Rightarrow> bool \<Rightarrow>
   fault + LocalConstantPropagation" where
  "simplify_non_branch self inst current_state is_wide =
     (case dest inst of
        Inl e \<Rightarrow> Inl e
      | Inr dst \<Rightarrow>
        if \<not> is_wide \<and> is_narrow_constant current_state dst then
          (case get_narrow current_state dst of
             Inl e \<Rightarrow> Inl e
           | Inr c \<Rightarrow>
               Inr (self\<lparr>m_insn_replacements := m_insn_replacements self @
                           [(inst, set_dest (set_literal (new_IRInstruction OPCODE_CONST)
                                                (scast c)) dst)],
                         m_materialized_consts := m_materialized_consts self + 1\<rparr>))
        else if is_wide \<and> is_wide_constant current_state dst then
          (case get_wide current_state dst of
             Inl e \<Rightarrow> Inl e
           | Inr c \<Rightarrow>
               Inr (self\<lparr>m_insn_replacements := m_insn_replacements self @
                           [(inst, set_dest (set_literal (new_IRInstruction OPCODE_CONST_WIDE)
                                                c) dst)],
                         m_materialized_consts := m_materialized_consts self + 1\<rparr>))
        else Inr self)"

definition simplify_instruction ::
  "LocalConstantPropagation \<Rightarrow> IRInstruction \<Rightarrow> ConstPropEnvironment \<Rightarrow>
   fault + LocalConstantPropagation" where
  "simplify_instruction self inst current_state =
     (case opcode inst of
        OPCODE_MOVE \<Rightarrow>
          (if replace_moves_with_consts (m_config self) then
             simplify_non_branch self inst current_state False
           else Inr self)
      | OPCODE_MOVE_WIDE \<Rightarrow>
          (if replace_moves_with_consts (m_config self) then
             simplify_non_branch self inst current_state True
           else Inr self)
      | OPCODE_IF_EQ \<Rightarrow> simplify_branch self inst current_state
      | OPCODE_IF_NE \<Rightarrow> simplify_branch self inst current_state
      | OPCODE_IF_LT \<Rightarrow> simplify_branch self inst current_state
      | OPCODE_IF_GE \<Rightarrow> simplify_branch self inst current_state
      | OPCODE_IF_GT \<Rightarrow> simplify_branch self inst current_state
      | OPCODE_IF_LE \<Rightarrow> simplify_branch self inst current_state
      | OPCODE_IF_LTZ \<Rightarrow> simplify_branch self inst current_state
      | OPCODE_IF_GEZ \<Rightarrow> simplify_branch self inst current_state
      | OPCODE_IF_GTZ \<Rightarrow> simplify_branch self inst current_state
      | OPCODE_IF_LEZ \<Rightarrow> simplify_branch self inst current_state
      | OPCODE_IF_EQZ \<Rightarrow> simplify_branch self inst current_state
      | OPCODE_IF_NEZ \<Rightarrow> simplify_branch self inst current_state
      | OPCODE_ADD_INT_LIT16 \<Rightarrow>
          (if fold_arithmetic (m_config self) then
             simplify_non_branch self inst current_state False
           else Inr self)
      | OPCODE_ADD_INT_LIT8 \<Rightarrow>
          (if fold_arithmetic (m_config self) then
             simplify_non_branch self inst current_state False
           else Inr self)
      | _ \<Rightarrow> Inr self)"

subsection \<open>Predicates of the statements and example inputs\<close>

text \<open>The values of a signed 32-bit integer, as a predicate on the mathematical sum.\<close>

definition int32_representable :: "int \<Rightarrow> bool" where
  "int32_representable k = (- 2147483648 \<le> k \<and> k \<le> 2147483647)"

text \<open>A pass object with both options on and nothing recorded yet.\<close>

definition cfg_all :: Config where
  "cfg_all = \<lparr>fold_arithmetic = True, replace_moves_with_consts = True\<rparr>"

definition lcp0 :: LocalConstantPropagation where
  "lcp0 = \<lparr>m_config = cfg_all, m_insn_replacements = [], m_branch_propagated = 0,
            m_materialized_consts = 0\<rparr>"

text \<open>
  \<open>add-int/lit8 d, s, k\<close>, a conditional branch over the registers \<open>ss\<close> to the
  label 0, and the same to a label \<open>t\<close>.
\<close>

definition add_lit8 :: "reg \<Rightarrow> reg \<Rightarrow> int64 \<Rightarrow> IRInstruction" where
  "add_lit8 d s k =
     \<lparr>opcode = OPCODE_ADD_INT_LIT8, srcs = [s], dest_reg = Some d, literal = k,
      target = None\<rparr>"

definition branch_insn :: "IROpcode \<Rightarrow> reg list \<Rightarrow> IRInstruction" where
  "branch_insn op ss =
     \<lparr>opcode = op, srcs = ss, dest_reg = None, literal = 0, target = Some 0\<rparr>"


text \<open>Registers 0 and 1 both bound to the interval [5, 5].\<close>

definition env_five_five :: ConstPropEnvironment where
  "env_five_five =
     Env ((\<lambda>r. (False, Top))(0 := (False, Interval 5 5 None), 1 := (False, Interval 5 5 None)))"


text \<open>Two disjoint intervals that are not exact, and two registers holding the narrow constant 3.\<close>

definition env_disjoint :: ConstPropEnvironment where
  "env_disjoint =
     Env ((\<lambda>r. (False, Top))(0 := (False, Interval 1 2 None), 1 := (False, Interval 5 6 None)))"

definition env_three_three :: ConstPropEnvironment where
  "env_three_three = set_narrow (set_narrow fresh_env 0 3) 1 3"

text \<open>
  A register copy \<open>d := s\<close>, a pass object with both options off, an instruction of an
  opcode that the pass does not name, and a compare \<open>d := cmp(a, b)\<close>.
\<close>

definition move_insn :: "IROpcode \<Rightarrow> reg \<Rightarrow> reg \<Rightarrow> IRInstruction" where
  "move_insn op d s =
     \<lparr>opcode = op, srcs = [s], dest_reg = Some d, literal = 0, target = None\<rparr>"

definition cfg_none :: Config where
  "cfg_none = \<lparr>fold_arithmetic = False, replace_moves_with_consts = False\<rparr>"

definition lcp_off :: LocalConstantPropagation where
  "lcp_off = \<lparr>m_config = cfg_none, m_insn_replacements = [], m_branch_propagated = 0,
               m_materialized_consts = 0\<rparr>"

definition other_insn :: "nat \<Rightarrow> reg option \<Rightarrow> bool \<Rightarrow> IRInstruction" where
  "other_insn n d w =
     \<lparr>opcode = OPCODE_OTHER n w, srcs = [], dest_reg = d, literal = 0, target = None\<rparr>"

definition cmp_insn :: "IROpcode \<Rightarrow> reg \<Rightarrow> reg \<Rightarrow> reg \<Rightarrow> IRInstruction" where
  "cmp_insn op d a b =
     \<lparr>opcode = op, srcs = [a, b], dest_reg = Some d, literal = 0, target = None\<rparr>"

text \<open>
  The bits of the \<open>float\<close>s 1.0 and 2.0 and of a quiet NaN, of the \<open>double\<close> 1.0
  and of a quiet NaN, and environments that hold them.
\<close>

definition float_one :: int32 where
  "float_one = 0x3F800000"

definition float_two :: int32 where
  "float_two = 0x40000000"

definition float_nan :: int32 where
  "float_nan = 0x7FC00000"

definition double_one :: int64 where
  "double_one = 0x3FF0000000000000"

definition double_nan :: int64 where
  "double_nan = 0x7FF8000000000000"

definition env_floats :: ConstPropEnvironment where
  "env_floats = set_narrow (set_narrow (set_narrow fresh_env 0 float_one) 1 float_two) 2 float_nan"

definition env_wides :: ConstPropEnvironment where
  "env_wides = set_wide (set_wide (set_wide fresh_env 0 double_one) 1 double_nan) 2 (- 1)"

text \<open>
  The literal load \<open>const d, k\<close>, and the environment after \<open>const v0, 10\<close> and
  \<open>const v1, 20\<close>.
\<close>

definition const_insn :: "reg \<Rightarrow> int64 \<Rightarrow> IRInstruction" where
  "const_insn d k =
     \<lparr>opcode = OPCODE_CONST, srcs = [], dest_reg = Some d, literal = k, target = None\<rparr>"


section \<open>Properties\<close>

subsection \<open>Signed 32-bit arithmetic\<close>

lemma sint_INT32_MAX: "sint INT32_MAX = 2147483647"
  by (simp add: INT32_MAX_def)

lemma sint_INT32_MIN: "sint INT32_MIN = - 2147483648"
  by (simp add: INT32_MIN_def)

lemma sint32_range: "- 2147483648 \<le> sint (x :: int32) \<and> sint x \<le> 2147483647"
  using sint_ge [of x] sint_lt [of x] by simp

lemma sint32_sub:
  "- 2147483648 \<le> sint (a :: int32) - sint b \<Longrightarrow> sint a - sint b \<le> 2147483647 \<Longrightarrow>
   sint (a - b) = sint a - sint b"
  by (simp add: sint_word_ariths signed_take_bit_int_eq_self)

lemma sint32_add:
  "- 2147483648 \<le> sint (a :: int32) + sint b \<Longrightarrow> sint a + sint b \<le> 2147483647 \<Longrightarrow>
   sint (a + b) = sint a + sint b"
  by (simp add: sint_word_ariths signed_take_bit_int_eq_self)

lemma addition_out_of_bounds_iff:
  "addition_out_of_bounds a b \<longleftrightarrow>
     \<not> (- 2147483648 \<le> sint a + sint b \<and> sint a + sint b \<le> 2147483647)"
proof -
  have ra: "- 2147483648 \<le> sint a \<and> sint a \<le> 2147483647" by (rule sint32_range)
  have rb: "- 2147483648 \<le> sint b \<and> sint b \<le> 2147483647" by (rule sint32_range)
  have pos: "sint (INT32_MAX - b) = 2147483647 - sint b" if "0 < sint b"
    using that rb sint32_sub [of INT32_MAX b] by (simp add: sint_INT32_MAX)
  have neg: "sint (INT32_MIN - b) = - 2147483648 - sint b" if "sint b < 0"
    using that rb sint32_sub [of INT32_MIN b] by (simp add: sint_INT32_MIN)
  show ?thesis
  proof (cases "0 < sint b")
    case True
    then show ?thesis
      using ra rb pos by (auto simp: addition_out_of_bounds_def word_sless_alt)
  next
    case False
    show ?thesis
    proof (cases "sint b < 0")
      case True
      then show ?thesis
        using ra rb neg by (auto simp: addition_out_of_bounds_def word_sless_alt)
    next
      case False
      with \<open>\<not> 0 < sint b\<close> have "sint b = 0" by simp
      then show ?thesis
        using ra by (auto simp: addition_out_of_bounds_def word_sless_alt)
    qed
  qed
qed

lemma sint_scast_narrow: "sint (scast (c :: int32) :: int64) = sint c"
  by (rule sint_up_scast) (simp add: is_up)

subsection \<open>Reading the environment after a write\<close>

lemma get_set_value_same: "\<not> is_bottom env \<Longrightarrow> get (set_value env r w v) r = v"
  by (cases env) (simp_all add: is_bottom_def get_def set_value_def)

lemma width_tag_set_value: "\<not> is_bottom env \<Longrightarrow> width_tag (set_value env r w v) r = w"
  by (cases env) (simp_all add: is_bottom_def width_tag_def set_value_def)

lemma width_tag_set_top: "\<not> is_bottom env \<Longrightarrow> width_tag (set_top env d w) d = w"
  by (simp add: set_top_def width_tag_set_value)

lemma get_not_Bottom_not_is_bottom: "get env r \<noteq> Bottom \<Longrightarrow> \<not> is_bottom env"
  by (cases env) (simp_all add: is_bottom_def get_def)

lemma analyze_non_branch_narrow_constant:
  assumes "srcs inst = s # rest" and "dest_reg inst = Some d"
    and "get env s = NarrowConstant a"
  shows "analyze_non_branch inst env False f g =
           (case f a of None \<Rightarrow> Inr (set_top env d False)
                      | Some v \<Rightarrow> Inr (set_narrow env d v))"
  using assms
  by (simp add: analyze_non_branch_def src_def dest_def is_narrow_constant_def get_narrow_def)


lemma get_set_top: "\<not> is_bottom env \<Longrightarrow> get (set_top env d w) d = Top"
  by (simp add: set_top_def get_set_value_same)

lemma get_set_narrow: "\<not> is_bottom env \<Longrightarrow> get (set_narrow env d c) d = NarrowConstant c"
  by (simp add: set_narrow_def get_set_value_same)

lemma get_set_wide: "\<not> is_bottom env \<Longrightarrow> get (set_wide env d c) d = WideConstant c"
  by (simp add: set_wide_def get_set_value_same)

lemma analyze_non_branch_wide_constant:
  assumes "srcs inst = s # rest" and "dest_reg inst = Some d"
    and "get env s = WideConstant a"
  shows "analyze_non_branch inst env True f g =
           (case g a of None \<Rightarrow> Inr (set_top env d True)
                      | Some v \<Rightarrow> Inr (set_wide env d v))"
  using assms
  by (simp add: analyze_non_branch_def src_def dest_def is_wide_constant_def get_wide_def)

lemma analyze_non_branch_unknown:
  assumes "srcs inst = s # rest" and "dest_reg inst = Some d"
    and "if w then \<not> is_wide_constant env s else \<not> is_narrow_constant env s"
  shows "analyze_non_branch inst env w f g = Inr (set_top env d w)"
  using assms
  by (simp add: analyze_non_branch_def src_def dest_def split: if_splits)

subsection \<open>The evaluator on its operands\<close>

lemma second_src:
  "srcs insn = s0 # rest \<Longrightarrow>
   (if 1 < srcs_size insn then get state (srcs insn ! 1) else NarrowConstant 0) =
   (if rest = [] then NarrowConstant 0 else get state (hd rest))"
  by (cases rest) (simp_all add: srcs_size_def)

lemma eval_if_operands:
  assumes "\<not> is_bottom state" and "srcs insn = s0 # rest"
    and "l = get state s0"
    and "r = (if rest = [] then NarrowConstant 0 else get state (hd rest))"
  shows "eval_if insn state =
    (if opcode insn = OPCODE_IF_EQ \<or> opcode insn = OPCODE_IF_NE \<or>
        opcode insn = OPCODE_IF_EQZ \<or> opcode insn = OPCODE_IF_NEZ then
       (case constant_domain l of
          None \<Rightarrow> Inr None
        | Some cl \<Rightarrow>
          (case constant_domain r of
             None \<Rightarrow> Inr None
           | Some cr \<Rightarrow>
               if opcode insn = OPCODE_IF_EQ \<or> opcode insn = OPCODE_IF_EQZ
               then Inr (Some (cl = cr)) else Inr (Some (cl \<noteq> cr))))
     else if opcode insn = OPCODE_IF_LE \<or> opcode insn = OPCODE_IF_LEZ then
       (if max_element l \<le>s min_element r then Inr (Some True)
        else if max_element r <s min_element l then Inr (Some False)
        else Inr None)
     else if opcode insn = OPCODE_IF_LT \<or> opcode insn = OPCODE_IF_LTZ then
       (if max_element l <s min_element r then Inr (Some True)
        else if max_element r \<le>s min_element l then Inr (Some False)
        else Inr None)
     else if opcode insn = OPCODE_IF_GE \<or> opcode insn = OPCODE_IF_GEZ then
       (if max_element r \<le>s min_element l then Inr (Some True)
        else if max_element l <s min_element r then Inr (Some False)
        else Inr None)
     else if opcode insn = OPCODE_IF_GT \<or> opcode insn = OPCODE_IF_GTZ then
       (if max_element r <s min_element l then Inr (Some True)
        else if max_element l \<le>s min_element r then Inr (Some False)
        else Inr None)
     else Inl NotAnIf)"
proof -
  have a: "src insn 0 = Inr s0" using assms(2) by (simp add: src_def)
  have b: "(if 1 < srcs_size insn then get state (srcs insn ! 1) else NarrowConstant 0) = r"
    using second_src [OF assms(2)] assms(4) by simp
  have c: "get state s0 = l" using assms(3) by simp
  have d: "is_bottom state = False" using assms(1) by simp
  show ?thesis
    unfolding eval_if_def Let_def a b sum.case c d if_False by (rule refl)
qed


subsection \<open>The compare on its operands\<close>

lemma analyze_compare_constants:
  assumes "srcs inst = a # b # rest" and "dest_reg inst = Some d"
    and "gcv env a = Some x" and "gcv env b = Some y"
  shows "analyze_compare gcv nan gt eq inst env =
           Inr (set_narrow env d (compare_result nan gt eq (opcode inst) x y))"
  using assms by (simp add: analyze_compare_def src_def dest_def)

lemma analyze_compare_unknown:
  assumes "srcs inst = a # b # rest" and "dest_reg inst = Some d"
    and "gcv env a = None \<or> gcv env b = None"
  shows "analyze_compare gcv nan gt eq inst env = Inr (set_top env d False)"
  using assms by (auto simp: analyze_compare_def src_def dest_def split: option.splits)

lemma get_constant_value_narrow_iff:
  "get_constant_value_narrow env r = Some c \<longleftrightarrow> get env r = NarrowConstant c"
  by (simp add: get_constant_value_narrow_def split: AbstractValue.splits)

lemma get_constant_value_wide_iff:
  "get_constant_value_wide env r = Some c \<longleftrightarrow> get env r = WideConstant c"
  by (simp add: get_constant_value_wide_def split: AbstractValue.splits)

lemma get_constant_value_narrow_None:
  "get_constant_value_narrow env r = None \<longleftrightarrow> \<not> is_narrow_constant env r"
  by (simp add: get_constant_value_narrow_def is_narrow_constant_def split: AbstractValue.splits)

lemma get_constant_value_wide_None:
  "get_constant_value_wide env r = None \<longleftrightarrow> \<not> is_wide_constant env r"
  by (simp add: get_constant_value_wide_def is_wide_constant_def split: AbstractValue.splits)

subsection \<open>The example inputs\<close>

lemma float_examples:
  "float_value float_one = 2 ^ 149" "float_value float_two = 2 ^ 150"
  "float_isnan float_nan" "\<not> float_isnan float_one" "\<not> float_isnan float_two"
  by (simp_all add: float_value_def float_isnan_def float_one_def float_two_def float_nan_def
      float_exponent_def float_fraction_def)

lemma double_examples:
  "double_value double_one = 2 ^ 1074" "double_isnan double_nan" "\<not> double_isnan double_one"
  by (simp_all add: double_value_def double_isnan_def double_one_def double_nan_def
      double_exponent_def double_fraction_def)

lemma env_floats_get:
  "get env_floats 0 = NarrowConstant float_one" "get env_floats 1 = NarrowConstant float_two"
  "get env_floats 2 = NarrowConstant float_nan" "get env_floats 3 = Top"
  "\<not> is_bottom env_floats"
  by (simp_all add: env_floats_def fresh_env_def set_narrow_def set_value_def get_def is_bottom_def)

lemma env_wides_get:
  "get env_wides 0 = WideConstant double_one" "get env_wides 1 = WideConstant double_nan"
  "get env_wides 2 = WideConstant (- 1)" "get env_wides 3 = Top"
  "\<not> is_bottom env_wides"
  by (simp_all add: env_wides_def fresh_env_def set_wide_def set_value_def get_def is_bottom_def)

subsection \<open>Ordering branches\<close>

text \<open>
  C1. For a conditional branch of an ordering form, on an environment that is not bottom,
  with \<open>l\<close> the value of the first source register and \<open>r\<close> that of the second (or
  the narrow constant 0, whose bounds are both 0, when the branch has one source) and
  both intervals ordered: less-than is always taken iff \<open>l.max < r.min\<close> and never
  taken iff \<open>l.min \<ge> r.max\<close>; less-or-equal is always taken iff \<open>l.max \<le> r.min\<close>
  and never taken iff \<open>l.min > r.max\<close>; greater-than is always taken iff
  \<open>l.min > r.max\<close> and never taken iff \<open>l.max \<le> r.min\<close>; greater-or-equal is
  always taken iff \<open>l.min \<ge> r.max\<close> and never taken iff \<open>l.max < r.min\<close>; in
  every other case the result is undetermined. With both intervals [5, 5], less-than and
  greater-than are never taken, less-or-equal and greater-or-equal always taken.
\<close>

theorem ordering_branch_rules:
  assumes nb: "\<not> is_bottom state"
    and s: "srcs insn = s0 # rest"
    and l: "l = get state s0"
    and r: "r = (if rest = [] then NarrowConstant 0 else get state (hd rest))"
    and ol: "min_element l \<le>s max_element l"
    and or: "min_element r \<le>s max_element r"
  shows
    "(opcode insn \<in> {OPCODE_IF_LT, OPCODE_IF_LTZ} \<longrightarrow>
        (eval_if insn state = Inr (Some True) \<longleftrightarrow> max_element l <s min_element r) \<and>
        (eval_if insn state = Inr (Some False) \<longleftrightarrow> max_element r \<le>s min_element l) \<and>
        (eval_if insn state = Inr None \<longleftrightarrow>
           \<not> max_element l <s min_element r \<and> \<not> max_element r \<le>s min_element l)) \<and>
     (opcode insn \<in> {OPCODE_IF_LE, OPCODE_IF_LEZ} \<longrightarrow>
        (eval_if insn state = Inr (Some True) \<longleftrightarrow> max_element l \<le>s min_element r) \<and>
        (eval_if insn state = Inr (Some False) \<longleftrightarrow> max_element r <s min_element l) \<and>
        (eval_if insn state = Inr None \<longleftrightarrow>
           \<not> max_element l \<le>s min_element r \<and> \<not> max_element r <s min_element l)) \<and>
     (opcode insn \<in> {OPCODE_IF_GT, OPCODE_IF_GTZ} \<longrightarrow>
        (eval_if insn state = Inr (Some True) \<longleftrightarrow> max_element r <s min_element l) \<and>
        (eval_if insn state = Inr (Some False) \<longleftrightarrow> max_element l \<le>s min_element r) \<and>
        (eval_if insn state = Inr None \<longleftrightarrow>
           \<not> max_element r <s min_element l \<and> \<not> max_element l \<le>s min_element r)) \<and>
     (opcode insn \<in> {OPCODE_IF_GE, OPCODE_IF_GEZ} \<longrightarrow>
        (eval_if insn state = Inr (Some True) \<longleftrightarrow> max_element r \<le>s min_element l) \<and>
        (eval_if insn state = Inr (Some False) \<longleftrightarrow> max_element l <s min_element r) \<and>
        (eval_if insn state = Inr None \<longleftrightarrow>
           \<not> max_element r \<le>s min_element l \<and> \<not> max_element l <s min_element r)) \<and>
     (rest = [] \<longrightarrow> min_element r = 0 \<and> max_element r = 0) \<and>
     (min_element l = 5 \<and> max_element l = 5 \<and> min_element r = 5 \<and> max_element r = 5 \<longrightarrow>
        (opcode insn \<in> {OPCODE_IF_LT, OPCODE_IF_LTZ} \<longrightarrow> eval_if insn state = Inr (Some False)) \<and>
        (opcode insn \<in> {OPCODE_IF_LE, OPCODE_IF_LEZ} \<longrightarrow> eval_if insn state = Inr (Some True)) \<and>
        (opcode insn \<in> {OPCODE_IF_GT, OPCODE_IF_GTZ} \<longrightarrow> eval_if insn state = Inr (Some False)) \<and>
        (opcode insn \<in> {OPCODE_IF_GE, OPCODE_IF_GEZ} \<longrightarrow> eval_if insn state = Inr (Some True)))"
proof -
  note ev = eval_if_operands [OF nb s l r]
  have ol': "sint (min_element l) \<le> sint (max_element l)"
    using ol by (simp add: word_sle_eq)
  have or': "sint (min_element r) \<le> sint (max_element r)"
    using or by (simp add: word_sle_eq)
  have lt: "opcode insn \<in> {OPCODE_IF_LT, OPCODE_IF_LTZ} \<longrightarrow>
        (eval_if insn state = Inr (Some True) \<longleftrightarrow> max_element l <s min_element r) \<and>
        (eval_if insn state = Inr (Some False) \<longleftrightarrow> max_element r \<le>s min_element l) \<and>
        (eval_if insn state = Inr None \<longleftrightarrow>
           \<not> max_element l <s min_element r \<and> \<not> max_element r \<le>s min_element l)"
    using ol' or' by (auto simp: ev word_sle_eq word_sless_alt)
  have le: "opcode insn \<in> {OPCODE_IF_LE, OPCODE_IF_LEZ} \<longrightarrow>
        (eval_if insn state = Inr (Some True) \<longleftrightarrow> max_element l \<le>s min_element r) \<and>
        (eval_if insn state = Inr (Some False) \<longleftrightarrow> max_element r <s min_element l) \<and>
        (eval_if insn state = Inr None \<longleftrightarrow>
           \<not> max_element l \<le>s min_element r \<and> \<not> max_element r <s min_element l)"
    using ol' or' by (auto simp: ev word_sle_eq word_sless_alt)
  have gt: "opcode insn \<in> {OPCODE_IF_GT, OPCODE_IF_GTZ} \<longrightarrow>
        (eval_if insn state = Inr (Some True) \<longleftrightarrow> max_element r <s min_element l) \<and>
        (eval_if insn state = Inr (Some False) \<longleftrightarrow> max_element l \<le>s min_element r) \<and>
        (eval_if insn state = Inr None \<longleftrightarrow>
           \<not> max_element r <s min_element l \<and> \<not> max_element l \<le>s min_element r)"
    using ol' or' by (auto simp: ev word_sle_eq word_sless_alt)
  have ge: "opcode insn \<in> {OPCODE_IF_GE, OPCODE_IF_GEZ} \<longrightarrow>
        (eval_if insn state = Inr (Some True) \<longleftrightarrow> max_element r \<le>s min_element l) \<and>
        (eval_if insn state = Inr (Some False) \<longleftrightarrow> max_element l <s min_element r) \<and>
        (eval_if insn state = Inr None \<longleftrightarrow>
           \<not> max_element r \<le>s min_element l \<and> \<not> max_element l <s min_element r)"
    using ol' or' by (auto simp: ev word_sle_eq word_sless_alt)
  have z: "rest = [] \<longrightarrow> min_element r = 0 \<and> max_element r = 0"
    using r by (simp add: min_element_def max_element_def)
  have five: "min_element l = 5 \<and> max_element l = 5 \<and> min_element r = 5 \<and> max_element r = 5 \<longrightarrow>
        (opcode insn \<in> {OPCODE_IF_LT, OPCODE_IF_LTZ} \<longrightarrow> eval_if insn state = Inr (Some False)) \<and>
        (opcode insn \<in> {OPCODE_IF_LE, OPCODE_IF_LEZ} \<longrightarrow> eval_if insn state = Inr (Some True)) \<and>
        (opcode insn \<in> {OPCODE_IF_GT, OPCODE_IF_GTZ} \<longrightarrow> eval_if insn state = Inr (Some False)) \<and>
        (opcode insn \<in> {OPCODE_IF_GE, OPCODE_IF_GEZ} \<longrightarrow> eval_if insn state = Inr (Some True))"
    by (auto simp: ev)
  from lt le gt ge z five show ?thesis by blast
qed

theorem ordering_branch_rules_witness:
  "eval_if (branch_insn OPCODE_IF_LT [0, 1]) env_five_five = Inr (Some False) \<and>
   eval_if (branch_insn OPCODE_IF_LE [0, 1]) env_five_five = Inr (Some True) \<and>
   eval_if (branch_insn OPCODE_IF_GT [0, 1]) env_five_five = Inr (Some False) \<and>
   eval_if (branch_insn OPCODE_IF_GE [0, 1]) env_five_five = Inr (Some True) \<and>
   eval_if (branch_insn OPCODE_IF_LTZ [0]) env_five_five = Inr (Some False) \<and>
   eval_if (branch_insn OPCODE_IF_GEZ [0]) env_five_five = Inr (Some True)"
proof -
  have nb: "\<not> is_bottom env_five_five"
    by (simp add: env_five_five_def is_bottom_def)
  have l: "Interval 5 5 None = get env_five_five 0"
    by (simp add: env_five_five_def get_def)
  have r: "Interval 5 5 None = (if [1 :: reg] = [] then NarrowConstant 0 else get env_five_five (hd [1]))"
    by (simp add: env_five_five_def get_def)
  have z: "NarrowConstant 0 = (if ([] :: reg list) = [] then NarrowConstant 0 else get env_five_five (hd []))"
    by simp
  have o5: "min_element (Interval 5 5 None) \<le>s max_element (Interval 5 5 None)"
    by (simp add: min_element_def max_element_def)
  have o0: "min_element (NarrowConstant 0) \<le>s max_element (NarrowConstant 0)"
    by (simp add: min_element_def max_element_def)
  have s2: "\<And>op. srcs (branch_insn op [0, 1]) = 0 # [1]" by (simp add: branch_insn_def)
  have s1: "\<And>op. srcs (branch_insn op [0]) = 0 # []" by (simp add: branch_insn_def)
  show ?thesis
    using ordering_branch_rules [OF nb s2 l r o5 o5, of OPCODE_IF_LT]
      ordering_branch_rules [OF nb s2 l r o5 o5, of OPCODE_IF_LE]
      ordering_branch_rules [OF nb s2 l r o5 o5, of OPCODE_IF_GT]
      ordering_branch_rules [OF nb s2 l r o5 o5, of OPCODE_IF_GE]
      ordering_branch_rules [OF nb s1 l z o5 o0, of OPCODE_IF_LTZ]
      ordering_branch_rules [OF nb s1 l z o5 o0, of OPCODE_IF_GEZ]
    by (simp add: branch_insn_def min_element_def max_element_def word_sle_eq word_sless_alt)
qed

subsection \<open>Folding the add with an immediate\<close>

text \<open>
  C2. With \<open>fold_arithmetic\<close> on, for \<open>ADD_INT_LIT8\<close> and \<open>ADD_INT_LIT16\<close> whose
  source register holds the narrow constant \<open>a\<close>: when the mathematical sum of \<open>a\<close>
  and the immediate is a signed 32-bit value, the destination becomes the narrow constant
  of exactly that sum; when it is not, the destination becomes Top, never a wrapped value.
  The decision is the pre-check of \<open>addition_out_of_bounds\<close>, whose own subtractions
  from \<open>INT32_MAX\<close> and \<open>INT32_MIN\<close> do not wrap under the sign tests that guard
  them.
\<close>

theorem add_lit_fold:
  assumes fold: "fold_arithmetic (m_config self)"
    and op: "opcode inst = OPCODE_ADD_INT_LIT8 \<or> opcode inst = OPCODE_ADD_INT_LIT16"
    and s: "srcs inst = s # rest"
    and d: "dest_reg inst = Some d"
    and a: "get env s = NarrowConstant a"
  shows "(analyze_instruction self inst env =
            (if int32_representable (sint a + sint (ucast (get_literal inst) :: int32))
             then Inr (set_narrow env d (a + ucast (get_literal inst)))
             else Inr (set_top env d False))) \<and>
         (int32_representable (sint a + sint (ucast (get_literal inst) :: int32)) \<longrightarrow>
            sint (a + ucast (get_literal inst)) = sint a + sint (ucast (get_literal inst) :: int32) \<and>
            get (set_narrow env d (a + ucast (get_literal inst))) d =
              NarrowConstant (a + ucast (get_literal inst))) \<and>
         get (set_top env d False) d = Top \<and>
         (0 <s a \<longrightarrow> sint (INT32_MAX - a) = sint INT32_MAX - sint a) \<and>
         (a <s 0 \<longrightarrow> sint (INT32_MIN - a) = sint INT32_MIN - sint a)"
proof -
  let ?lit = "ucast (get_literal inst) :: int32"
  have nb: "\<not> is_bottom env"
    using a get_not_Bottom_not_is_bottom [of env s] by simp
  have run: "analyze_instruction self inst env =
               (case add_in_bounds ?lit a of
                  None \<Rightarrow> Inr (set_top env d False)
                | Some v \<Rightarrow> Inr (set_narrow env d v))"
    using op fold analyze_non_branch_narrow_constant [OF s d a]
    by (auto simp: analyze_instruction_def)
  have oob: "addition_out_of_bounds ?lit a \<longleftrightarrow> \<not> int32_representable (sint a + sint ?lit)"
    by (simp add: addition_out_of_bounds_iff int32_representable_def add.commute)
  have c1: "analyze_instruction self inst env =
            (if int32_representable (sint a + sint ?lit)
             then Inr (set_narrow env d (a + ?lit))
             else Inr (set_top env d False))"
    by (simp add: run add_in_bounds_def oob)
  have c2: "int32_representable (sint a + sint ?lit) \<longrightarrow>
            sint (a + ?lit) = sint a + sint ?lit \<and>
            get (set_narrow env d (a + ?lit)) d = NarrowConstant (a + ?lit)"
    using nb sint32_add [of a ?lit]
    by (simp add: int32_representable_def set_narrow_def get_set_value_same)
  have c3: "get (set_top env d False) d = Top"
    using nb by (simp add: set_top_def get_set_value_same)
  have ra: "- 2147483648 \<le> sint a \<and> sint a \<le> 2147483647" by (rule sint32_range)
  have c4: "0 <s a \<longrightarrow> sint (INT32_MAX - a) = sint INT32_MAX - sint a"
    using ra sint32_sub [of INT32_MAX a] by (simp add: word_sless_alt sint_INT32_MAX)
  have c5: "a <s 0 \<longrightarrow> sint (INT32_MIN - a) = sint INT32_MIN - sint a"
    using ra sint32_sub [of INT32_MIN a] by (simp add: word_sless_alt sint_INT32_MIN)
  from c1 c2 c3 c4 c5 show ?thesis by blast
qed

theorem add_lit_fold_witness:
  "analyze_instruction lcp0 (add_lit8 1 0 1) (set_narrow fresh_env 0 41) =
     Inr (set_narrow (set_narrow fresh_env 0 41) 1 42) \<and>
   analyze_instruction lcp0 (add_lit8 0 0 1) (set_narrow fresh_env 0 INT32_MAX) =
     Inr (set_top (set_narrow fresh_env 0 INT32_MAX) 0 False) \<and>
   get (set_top (set_narrow fresh_env 0 INT32_MAX) 0 False) 0 = Top"
proof -
  have g1: "get (set_narrow fresh_env 0 41) 0 = NarrowConstant 41"
    by (simp add: set_narrow_def fresh_env_def set_value_def get_def)
  have g2: "get (set_narrow fresh_env 0 INT32_MAX) 0 = NarrowConstant INT32_MAX"
    by (simp add: set_narrow_def fresh_env_def set_value_def get_def)
  have f: "fold_arithmetic (m_config lcp0)" by (simp add: lcp0_def cfg_all_def)
  show ?thesis
    using add_lit_fold [of lcp0 "add_lit8 1 0 1" 0 "[]" 1 "set_narrow fresh_env 0 41" 41, OF f _ _ _ g1]
      add_lit_fold [of lcp0 "add_lit8 0 0 1" 0 "[]" 0 "set_narrow fresh_env 0 INT32_MAX" INT32_MAX, OF f _ _ _ g2]
    by (simp add: add_lit8_def get_literal_def int32_representable_def INT32_MAX_def)
qed

subsection \<open>Compares\<close>

text \<open>
  C3. For a compare whose two source registers hold exact constants of the operand's
  width (narrow for \<open>float\<close>, wide for \<open>double\<close> and \<open>long\<close>), the destination
  becomes a narrow constant: when either floating operand is NaN, -1 for the
  \<open>CMPL\<close> opcodes and +1 for the \<open>CMPG\<close> opcodes; otherwise (and for
  \<open>CMP_LONG\<close> always) +1, 0 or -1 as the left operand is above, equal to or below
  the right one, by the values of the floating numbers or the signed order of the
  longs. When either source is not such a constant the destination becomes Top.
\<close>

theorem compare_transfer:
  assumes s: "srcs inst = a # b # rest" and d: "dest_reg inst = Some d"
  shows
    "(opcode inst \<in> {OPCODE_CMPL_FLOAT, OPCODE_CMPG_FLOAT} \<longrightarrow>
        (get env a = NarrowConstant x \<and> get env b = NarrowConstant y \<longrightarrow>
           analyze_instruction self inst env =
             Inr (set_narrow env d
                   (if float_isnan x \<or> float_isnan y then
                      (if opcode inst = OPCODE_CMPL_FLOAT then - 1 else 1)
                    else if float_value y < float_value x then 1
                    else if float_value x = float_value y then 0
                    else - 1))) \<and>
        (\<not> is_narrow_constant env a \<or> \<not> is_narrow_constant env b \<longrightarrow>
           analyze_instruction self inst env = Inr (set_top env d False))) \<and>
     (opcode inst \<in> {OPCODE_CMPL_DOUBLE, OPCODE_CMPG_DOUBLE} \<longrightarrow>
        (get env a = WideConstant x64 \<and> get env b = WideConstant y64 \<longrightarrow>
           analyze_instruction self inst env =
             Inr (set_narrow env d
                   (if double_isnan x64 \<or> double_isnan y64 then
                      (if opcode inst = OPCODE_CMPL_DOUBLE then - 1 else 1)
                    else if double_value y64 < double_value x64 then 1
                    else if double_value x64 = double_value y64 then 0
                    else - 1))) \<and>
        (\<not> is_wide_constant env a \<or> \<not> is_wide_constant env b \<longrightarrow>
           analyze_instruction self inst env = Inr (set_top env d False))) \<and>
     (opcode inst = OPCODE_CMP_LONG \<longrightarrow>
        (get env a = WideConstant x64 \<and> get env b = WideConstant y64 \<longrightarrow>
           analyze_instruction self inst env =
             Inr (set_narrow env d
                   (if sint y64 < sint x64 then 1 else if x64 = y64 then 0 else - 1))) \<and>
        (\<not> is_wide_constant env a \<or> \<not> is_wide_constant env b \<longrightarrow>
           analyze_instruction self inst env = Inr (set_top env d False))) \<and>
     (\<not> is_bottom env \<longrightarrow>
        get (set_narrow env d res) d = NarrowConstant res \<and> get (set_top env d False) d = Top)"
proof -
  have f1: "opcode inst \<in> {OPCODE_CMPL_FLOAT, OPCODE_CMPG_FLOAT} \<longrightarrow>
        get env a = NarrowConstant x \<and> get env b = NarrowConstant y \<longrightarrow>
           analyze_instruction self inst env =
             Inr (set_narrow env d
                   (if float_isnan x \<or> float_isnan y then
                      (if opcode inst = OPCODE_CMPL_FLOAT then - 1 else 1)
                    else if float_value y < float_value x then 1
                    else if float_value x = float_value y then 0
                    else - 1))"
  proof (intro impI, elim conjE)
    assume op: "opcode inst \<in> {OPCODE_CMPL_FLOAT, OPCODE_CMPG_FLOAT}"
      and gx: "get env a = NarrowConstant x" and gy: "get env b = NarrowConstant y"
    have cx: "get_constant_value_narrow env a = Some x"
      using gx by (simp add: get_constant_value_narrow_iff)
    have cy: "get_constant_value_narrow env b = Some y"
      using gy by (simp add: get_constant_value_narrow_iff)
    note run = analyze_compare_constants [where gcv = get_constant_value_narrow and nan = float_isnan and gt = float_greater and eq = float_equal, OF s d cx cy]
    show "analyze_instruction self inst env =
             Inr (set_narrow env d
                   (if float_isnan x \<or> float_isnan y then
                      (if opcode inst = OPCODE_CMPL_FLOAT then - 1 else 1)
                    else if float_value y < float_value x then 1
                    else if float_value x = float_value y then 0
                    else - 1))"
      using op run
      by (auto simp: analyze_instruction_def compare_result_def is_compare_floating_def
          is_less_than_bias_def float_greater_def float_equal_def)
  qed
  have f2: "opcode inst \<in> {OPCODE_CMPL_FLOAT, OPCODE_CMPG_FLOAT} \<longrightarrow>
        \<not> is_narrow_constant env a \<or> \<not> is_narrow_constant env b \<longrightarrow>
           analyze_instruction self inst env = Inr (set_top env d False)"
  proof (intro impI)
    assume op: "opcode inst \<in> {OPCODE_CMPL_FLOAT, OPCODE_CMPG_FLOAT}"
      and u: "\<not> is_narrow_constant env a \<or> \<not> is_narrow_constant env b"
    have "get_constant_value_narrow env a = None \<or> get_constant_value_narrow env b = None"
      using u by (simp add: get_constant_value_narrow_None)
    from analyze_compare_unknown [where gcv = get_constant_value_narrow and nan = float_isnan and gt = float_greater and eq = float_equal, OF s d this] op
    show "analyze_instruction self inst env = Inr (set_top env d False)"
      by (auto simp: analyze_instruction_def)
  qed
  have d1: "opcode inst \<in> {OPCODE_CMPL_DOUBLE, OPCODE_CMPG_DOUBLE} \<longrightarrow>
        get env a = WideConstant x64 \<and> get env b = WideConstant y64 \<longrightarrow>
           analyze_instruction self inst env =
             Inr (set_narrow env d
                   (if double_isnan x64 \<or> double_isnan y64 then
                      (if opcode inst = OPCODE_CMPL_DOUBLE then - 1 else 1)
                    else if double_value y64 < double_value x64 then 1
                    else if double_value x64 = double_value y64 then 0
                    else - 1))"
  proof (intro impI, elim conjE)
    assume op: "opcode inst \<in> {OPCODE_CMPL_DOUBLE, OPCODE_CMPG_DOUBLE}"
      and gx: "get env a = WideConstant x64" and gy: "get env b = WideConstant y64"
    have cx: "get_constant_value_wide env a = Some x64"
      using gx by (simp add: get_constant_value_wide_iff)
    have cy: "get_constant_value_wide env b = Some y64"
      using gy by (simp add: get_constant_value_wide_iff)
    note run = analyze_compare_constants [where gcv = get_constant_value_wide and nan = double_isnan and gt = double_greater and eq = double_equal, OF s d cx cy]
    show "analyze_instruction self inst env =
             Inr (set_narrow env d
                   (if double_isnan x64 \<or> double_isnan y64 then
                      (if opcode inst = OPCODE_CMPL_DOUBLE then - 1 else 1)
                    else if double_value y64 < double_value x64 then 1
                    else if double_value x64 = double_value y64 then 0
                    else - 1))"
      using op run
      by (auto simp: analyze_instruction_def compare_result_def is_compare_floating_def
          is_less_than_bias_def double_greater_def double_equal_def)
  qed
  have wu: "\<not> is_wide_constant env a \<or> \<not> is_wide_constant env b \<Longrightarrow>
      analyze_compare get_constant_value_wide nan gt eq inst env = Inr (set_top env d False)"
    for nan gt eq
  proof -
    assume u: "\<not> is_wide_constant env a \<or> \<not> is_wide_constant env b"
    have "get_constant_value_wide env a = None \<or> get_constant_value_wide env b = None"
      using u by (simp add: get_constant_value_wide_None)
    from analyze_compare_unknown [where gcv = get_constant_value_wide, OF s d this]
    show "analyze_compare get_constant_value_wide nan gt eq inst env = Inr (set_top env d False)" .
  qed
  have d2: "opcode inst \<in> {OPCODE_CMPL_DOUBLE, OPCODE_CMPG_DOUBLE} \<longrightarrow>
        \<not> is_wide_constant env a \<or> \<not> is_wide_constant env b \<longrightarrow>
           analyze_instruction self inst env = Inr (set_top env d False)"
    using wu by (auto simp: analyze_instruction_def)
  have l1: "opcode inst = OPCODE_CMP_LONG \<longrightarrow>
        get env a = WideConstant x64 \<and> get env b = WideConstant y64 \<longrightarrow>
           analyze_instruction self inst env =
             Inr (set_narrow env d
                   (if sint y64 < sint x64 then 1 else if x64 = y64 then 0 else - 1))"
  proof (intro impI, elim conjE)
    assume op: "opcode inst = OPCODE_CMP_LONG"
      and gx: "get env a = WideConstant x64" and gy: "get env b = WideConstant y64"
    have cx: "get_constant_value_wide env a = Some x64"
      using gx by (simp add: get_constant_value_wide_iff)
    have cy: "get_constant_value_wide env b = Some y64"
      using gy by (simp add: get_constant_value_wide_iff)
    note run = analyze_compare_constants [where gcv = get_constant_value_wide and nan = long_isnan and gt = long_greater and eq = long_equal, OF s d cx cy]
    show "analyze_instruction self inst env =
             Inr (set_narrow env d
                   (if sint y64 < sint x64 then 1 else if x64 = y64 then 0 else - 1))"
      using op run
      by (simp add: analyze_instruction_def compare_result_def is_compare_floating_def
          long_greater_def long_equal_def word_sless_alt)
  qed
  have l2: "opcode inst = OPCODE_CMP_LONG \<longrightarrow>
        \<not> is_wide_constant env a \<or> \<not> is_wide_constant env b \<longrightarrow>
           analyze_instruction self inst env = Inr (set_top env d False)"
    using wu by (auto simp: analyze_instruction_def)
  have g: "\<not> is_bottom env \<longrightarrow>
        get (set_narrow env d res) d = NarrowConstant res \<and> get (set_top env d False) d = Top"
    by (simp add: get_set_narrow get_set_top)
  from f1 f2 d1 d2 l1 l2 g show ?thesis by blast
qed

theorem compare_transfer_witness:
  "analyze_instruction lcp0 (cmp_insn OPCODE_CMPL_FLOAT 4 2 0) env_floats =
     Inr (set_narrow env_floats 4 (- 1)) \<and>
   analyze_instruction lcp0 (cmp_insn OPCODE_CMPG_FLOAT 4 0 2) env_floats =
     Inr (set_narrow env_floats 4 1) \<and>
   analyze_instruction lcp0 (cmp_insn OPCODE_CMPG_FLOAT 4 0 1) env_floats =
     Inr (set_narrow env_floats 4 (- 1)) \<and>
   analyze_instruction lcp0 (cmp_insn OPCODE_CMPL_FLOAT 4 1 0) env_floats =
     Inr (set_narrow env_floats 4 1) \<and>
   analyze_instruction lcp0 (cmp_insn OPCODE_CMPL_FLOAT 4 1 1) env_floats =
     Inr (set_narrow env_floats 4 0) \<and>
   analyze_instruction lcp0 (cmp_insn OPCODE_CMPL_FLOAT 4 0 3) env_floats =
     Inr (set_top env_floats 4 False) \<and>
   analyze_instruction lcp0 (cmp_insn OPCODE_CMPG_DOUBLE 4 0 1) env_wides =
     Inr (set_narrow env_wides 4 1) \<and>
   analyze_instruction lcp0 (cmp_insn OPCODE_CMPL_DOUBLE 4 1 0) env_wides =
     Inr (set_narrow env_wides 4 (- 1)) \<and>
   analyze_instruction lcp0 (cmp_insn OPCODE_CMPL_DOUBLE 4 0 0) env_wides =
     Inr (set_narrow env_wides 4 0) \<and>
   analyze_instruction lcp0 (cmp_insn OPCODE_CMP_LONG 4 2 0) env_wides =
     Inr (set_narrow env_wides 4 (- 1)) \<and>
   analyze_instruction lcp0 (cmp_insn OPCODE_CMP_LONG 4 3 0) env_wides =
     Inr (set_top env_wides 4 False) \<and>
   get (set_narrow env_floats 4 (- 1)) 4 = NarrowConstant (- 1)"
proof -
  have s: "\<And>op d a b. srcs (cmp_insn op d a b) = a # b # []" by (simp add: cmp_insn_def)
  have d: "\<And>op d a b. dest_reg (cmp_insn op d a b) = Some d" by (simp add: cmp_insn_def)
  have o: "\<And>op d a b. opcode (cmp_insn op d a b) = op" by (simp add: cmp_insn_def)
  have long: "sint (double_one :: int64) = 4607182418800017408" "sint (- 1 :: int64) = - 1"
    "(- 1 :: int64) \<noteq> double_one"
    by (simp_all add: double_one_def)
  have nc: "\<not> is_narrow_constant env_floats 3" "\<not> is_wide_constant env_wides 3"
    by (simp_all add: is_narrow_constant_def is_wide_constant_def env_floats_get env_wides_get)
  have c1: "analyze_instruction lcp0 (cmp_insn OPCODE_CMPL_FLOAT 4 2 0) env_floats =
     Inr (set_narrow env_floats 4 (- 1))"
    using compare_transfer [OF s d, of OPCODE_CMPL_FLOAT 4 2 0 env_floats float_nan float_one lcp0 0 0 0]
    by (simp add: o env_floats_get float_examples)
  have c2: "analyze_instruction lcp0 (cmp_insn OPCODE_CMPG_FLOAT 4 0 2) env_floats =
     Inr (set_narrow env_floats 4 1)"
    using compare_transfer [OF s d, of OPCODE_CMPG_FLOAT 4 0 2 env_floats float_one float_nan lcp0 0 0 0]
    by (simp add: o env_floats_get float_examples)
  have c3: "analyze_instruction lcp0 (cmp_insn OPCODE_CMPG_FLOAT 4 0 1) env_floats =
     Inr (set_narrow env_floats 4 (- 1))"
    using compare_transfer [OF s d, of OPCODE_CMPG_FLOAT 4 0 1 env_floats float_one float_two lcp0 0 0 0]
    by (simp add: o env_floats_get float_examples)
  have c4: "analyze_instruction lcp0 (cmp_insn OPCODE_CMPL_FLOAT 4 1 0) env_floats =
     Inr (set_narrow env_floats 4 1)"
    using compare_transfer [OF s d, of OPCODE_CMPL_FLOAT 4 1 0 env_floats float_two float_one lcp0 0 0 0]
    by (simp add: o env_floats_get float_examples)
  have c5: "analyze_instruction lcp0 (cmp_insn OPCODE_CMPL_FLOAT 4 1 1) env_floats =
     Inr (set_narrow env_floats 4 0)"
    using compare_transfer [OF s d, of OPCODE_CMPL_FLOAT 4 1 1 env_floats float_two float_two lcp0 0 0 0]
    by (simp add: o env_floats_get float_examples)
  have c6: "analyze_instruction lcp0 (cmp_insn OPCODE_CMPL_FLOAT 4 0 3) env_floats =
     Inr (set_top env_floats 4 False)"
    using compare_transfer [OF s d, of OPCODE_CMPL_FLOAT 4 0 3 env_floats 0 0 lcp0 0 0 0] nc
    by (simp add: o)
  have c7: "analyze_instruction lcp0 (cmp_insn OPCODE_CMPG_DOUBLE 4 0 1) env_wides =
     Inr (set_narrow env_wides 4 1)"
    using compare_transfer [OF s d, of OPCODE_CMPG_DOUBLE 4 0 1 env_wides 0 0 lcp0 double_one double_nan 0]
    by (simp add: o env_wides_get double_examples)
  have c8: "analyze_instruction lcp0 (cmp_insn OPCODE_CMPL_DOUBLE 4 1 0) env_wides =
     Inr (set_narrow env_wides 4 (- 1))"
    using compare_transfer [OF s d, of OPCODE_CMPL_DOUBLE 4 1 0 env_wides 0 0 lcp0 double_nan double_one 0]
    by (simp add: o env_wides_get double_examples)
  have c9: "analyze_instruction lcp0 (cmp_insn OPCODE_CMPL_DOUBLE 4 0 0) env_wides =
     Inr (set_narrow env_wides 4 0)"
    using compare_transfer [OF s d, of OPCODE_CMPL_DOUBLE 4 0 0 env_wides 0 0 lcp0 double_one double_one 0]
    by (simp add: o env_wides_get double_examples)
  have c10: "analyze_instruction lcp0 (cmp_insn OPCODE_CMP_LONG 4 2 0) env_wides =
     Inr (set_narrow env_wides 4 (- 1))"
    using compare_transfer [OF s d, of OPCODE_CMP_LONG 4 2 0 env_wides 0 0 lcp0 "- 1" double_one 0]
    by (simp add: o env_wides_get long)
  have c11: "analyze_instruction lcp0 (cmp_insn OPCODE_CMP_LONG 4 3 0) env_wides =
     Inr (set_top env_wides 4 False)"
    using compare_transfer [OF s d, of OPCODE_CMP_LONG 4 3 0 env_wides 0 0 lcp0 0 0 0] nc
    by (simp add: o)
  have c12: "get (set_narrow env_floats 4 (- 1)) 4 = NarrowConstant (- 1)"
    using compare_transfer [OF s d, of OPCODE_CMPL_FLOAT 4 2 0 env_floats float_nan float_one lcp0 0 0 "- 1"]
    by (simp add: env_floats_get)
  from c1 c2 c3 c4 c5 c6 c7 c8 c9 c10 c11 c12 show ?thesis by blast
qed

subsection \<open>Equality branches\<close>

text \<open>
  C4. For \<open>IF_EQ\<close>, \<open>IF_NE\<close>, \<open>IF_EQZ\<close> and \<open>IF_NEZ\<close> on an environment that is
  not bottom, with \<open>l\<close> and \<open>r\<close> the two sides (the right side of a one-source branch
  is the exact constant 0): when both sides are exact constants, the equality forms are
  always taken iff the constants are equal and never taken otherwise, the inequality
  forms always taken iff they differ and never taken otherwise; when either side is not
  an exact constant the result is undetermined, whatever the bounds of the two sides are
  (the bounds are not read).
\<close>

theorem equality_branch_rules:
  assumes nb: "\<not> is_bottom state"
    and s: "srcs insn = s0 # rest"
    and l: "l = get state s0"
    and r: "r = (if rest = [] then NarrowConstant 0 else get state (hd rest))"
  shows
    "(constant_domain l = Some cl \<and> constant_domain r = Some cr \<longrightarrow>
        (opcode insn \<in> {OPCODE_IF_EQ, OPCODE_IF_EQZ} \<longrightarrow>
           eval_if insn state = Inr (Some (cl = cr))) \<and>
        (opcode insn \<in> {OPCODE_IF_NE, OPCODE_IF_NEZ} \<longrightarrow>
           eval_if insn state = Inr (Some (cl \<noteq> cr)))) \<and>
     (constant_domain l = None \<or> constant_domain r = None \<longrightarrow>
        (opcode insn \<in> {OPCODE_IF_EQ, OPCODE_IF_EQZ, OPCODE_IF_NE, OPCODE_IF_NEZ} \<longrightarrow>
           eval_if insn state = Inr None)) \<and>
     (rest = [] \<longrightarrow> constant_domain r = Some 0)"
proof -
  note ev = eval_if_operands [OF nb s l r]
  have c1: "constant_domain l = Some cl \<and> constant_domain r = Some cr \<longrightarrow>
        (opcode insn \<in> {OPCODE_IF_EQ, OPCODE_IF_EQZ} \<longrightarrow>
           eval_if insn state = Inr (Some (cl = cr))) \<and>
        (opcode insn \<in> {OPCODE_IF_NE, OPCODE_IF_NEZ} \<longrightarrow>
           eval_if insn state = Inr (Some (cl \<noteq> cr)))"
    by (auto simp: ev)
  have c2: "constant_domain l = None \<or> constant_domain r = None \<longrightarrow>
        (opcode insn \<in> {OPCODE_IF_EQ, OPCODE_IF_EQZ, OPCODE_IF_NE, OPCODE_IF_NEZ} \<longrightarrow>
           eval_if insn state = Inr None)"
    by (auto simp: ev split: option.splits)
  have c3: "rest = [] \<longrightarrow> constant_domain r = Some 0"
    using r by (simp add: constant_domain_def)
  from c1 c2 c3 show ?thesis by blast
qed

theorem equality_branch_rules_witness:
  "eval_if (branch_insn OPCODE_IF_EQ [0, 1]) env_three_three = Inr (Some True) \<and>
   eval_if (branch_insn OPCODE_IF_NE [0, 1]) env_three_three = Inr (Some False) \<and>
   eval_if (branch_insn OPCODE_IF_EQZ [0]) env_three_three = Inr (Some False) \<and>
   eval_if (branch_insn OPCODE_IF_NEZ [0]) env_three_three = Inr (Some True) \<and>
   eval_if (branch_insn OPCODE_IF_EQ [0, 1]) env_disjoint = Inr None \<and>
   eval_if (branch_insn OPCODE_IF_NE [0, 1]) env_disjoint = Inr None \<and>
   max_element (get env_disjoint 0) <s min_element (get env_disjoint 1)"
proof -
  have nb3: "\<not> is_bottom env_three_three"
    by (simp add: env_three_three_def fresh_env_def set_narrow_def set_value_def is_bottom_def)
  have l3: "NarrowConstant 3 = get env_three_three 0"
    by (simp add: env_three_three_def fresh_env_def set_narrow_def set_value_def get_def)
  have r3: "NarrowConstant 3 = (if [1 :: reg] = [] then NarrowConstant 0 else get env_three_three (hd [1]))"
    by (simp add: env_three_three_def fresh_env_def set_narrow_def set_value_def get_def)
  have z3: "NarrowConstant 0 = (if ([] :: reg list) = [] then NarrowConstant 0 else get env_three_three (hd []))"
    by simp
  have nbd: "\<not> is_bottom env_disjoint"
    by (simp add: env_disjoint_def is_bottom_def)
  have ld: "Interval 1 2 None = get env_disjoint 0"
    by (simp add: env_disjoint_def get_def)
  have rd: "Interval 5 6 None = (if [1 :: reg] = [] then NarrowConstant 0 else get env_disjoint (hd [1]))"
    by (simp add: env_disjoint_def get_def)
  have s2: "\<And>op. srcs (branch_insn op [0, 1]) = 0 # [1]" by (simp add: branch_insn_def)
  have s1: "\<And>op. srcs (branch_insn op [0]) = 0 # []" by (simp add: branch_insn_def)
  have bounds: "max_element (get env_disjoint 0) <s min_element (get env_disjoint 1)"
    by (simp add: env_disjoint_def get_def min_element_def max_element_def word_sless_alt)
  show ?thesis
    using equality_branch_rules [OF nb3 s2 l3 r3, of 3 3 OPCODE_IF_EQ]
      equality_branch_rules [OF nb3 s2 l3 r3, of 3 3 OPCODE_IF_NE]
      equality_branch_rules [OF nb3 s1 l3 z3, of 3 0 OPCODE_IF_EQZ]
      equality_branch_rules [OF nb3 s1 l3 z3, of 3 0 OPCODE_IF_NEZ]
      equality_branch_rules [OF nbd s2 ld rd, of 0 0 OPCODE_IF_EQ]
      equality_branch_rules [OF nbd s2 ld rd, of 0 0 OPCODE_IF_NE]
      bounds
    by (simp add: branch_insn_def constant_domain_def)
qed

subsection \<open>Faults of the evaluator\<close>




subsection \<open>The default transfer\<close>

text \<open>
  C6. For an instruction whose opcode is not a literal load, a copy or a compare, and
  is not an add with an immediate unless \<open>fold_arithmetic\<close> is off: with a
  destination register, the analyzer calls \<open>set_top\<close> on it with the destination's
  width, so that afterwards it reads Top and carries the width tag of the instruction's
  destination; without a destination, the environment is returned unchanged.
\<close>

theorem default_transfer:
  assumes other: "opcode inst \<notin> {OPCODE_CONST, OPCODE_CONST_WIDE, OPCODE_MOVE, OPCODE_MOVE_OBJECT,
                     OPCODE_MOVE_WIDE, OPCODE_CMPL_FLOAT, OPCODE_CMPG_FLOAT, OPCODE_CMPL_DOUBLE,
                     OPCODE_CMPG_DOUBLE, OPCODE_CMP_LONG}"
    and add: "opcode inst \<in> {OPCODE_ADD_INT_LIT8, OPCODE_ADD_INT_LIT16} \<longrightarrow>
                \<not> fold_arithmetic (m_config self)"
  shows
    "(dest_reg inst = Some d \<longrightarrow>
        dests_size inst = 1 \<and>
        analyze_instruction self inst env = Inr (set_top env d (dest_is_wide inst)) \<and>
        (\<not> is_bottom env \<longrightarrow>
           get (set_top env d (dest_is_wide inst)) d = Top \<and>
           width_tag (set_top env d (dest_is_wide inst)) d = dest_is_wide inst)) \<and>
     (dest_reg inst = None \<longrightarrow>
        dests_size inst = 0 \<and> analyze_instruction self inst env = Inr env)"
proof -
  have run: "analyze_instruction self inst env = analyze_default inst env"
    using other add by (cases "opcode inst") (simp_all add: analyze_instruction_def)
  have c1: "dest_reg inst = Some d \<longrightarrow>
        dests_size inst = 1 \<and>
        analyze_instruction self inst env = Inr (set_top env d (dest_is_wide inst))"
    by (simp add: run analyze_default_def dests_size_def dest_def)
  have c2: "\<not> is_bottom env \<longrightarrow>
           get (set_top env d (dest_is_wide inst)) d = Top \<and>
           width_tag (set_top env d (dest_is_wide inst)) d = dest_is_wide inst"
    by (simp add: get_set_top width_tag_set_top)
  have c4: "dest_reg inst = None \<longrightarrow>
        dests_size inst = 0 \<and> analyze_instruction self inst env = Inr env"
    by (simp add: run analyze_default_def dests_size_def)
  from c1 c2 c4 show ?thesis by blast
qed

theorem default_transfer_witness:
  "analyze_instruction lcp_off (add_lit8 1 0 1) (set_narrow fresh_env 0 41) =
     Inr (set_top (set_narrow fresh_env 0 41) 1 False) \<and>
   get (set_top (set_narrow fresh_env 0 41) 1 False) 1 = Top \<and>
   \<not> width_tag (set_top (set_narrow fresh_env 0 41) 1 False) 1 \<and>
   analyze_instruction lcp0 (other_insn 7 (Some 2) True) (set_narrow fresh_env 2 41) =
     Inr (set_top (set_narrow fresh_env 2 41) 2 True) \<and>
   width_tag (set_top (set_narrow fresh_env 2 41) 2 True) 2 \<and>
   set_top (set_narrow fresh_env 2 41) 2 True \<noteq> set_top (set_narrow fresh_env 2 41) 2 False \<and>
   analyze_instruction lcp0 (other_insn 7 None False) (set_narrow fresh_env 0 41) =
     Inr (set_narrow fresh_env 0 41) \<and>
   analyze_instruction lcp0 (branch_insn OPCODE_IF_EQ [0, 1]) (set_narrow fresh_env 0 41) =
     Inr (set_narrow fresh_env 0 41)"
proof -
  have nb: "\<not> is_bottom (set_narrow fresh_env 0 41)" "\<not> is_bottom (set_narrow fresh_env 2 41)"
    by (simp_all add: set_narrow_def fresh_env_def set_value_def is_bottom_def)
  have ne: "set_top (set_narrow fresh_env 2 41) 2 True \<noteq> set_top (set_narrow fresh_env 2 41) 2 False"
    by (simp add: set_top_def set_narrow_def fresh_env_def set_value_def fun_eq_iff)
  show ?thesis
    using default_transfer [of "add_lit8 1 0 1" lcp_off 1 "set_narrow fresh_env 0 41"]
      default_transfer [of "other_insn 7 (Some 2) True" lcp0 2 "set_narrow fresh_env 2 41"]
      default_transfer [of "other_insn 7 None False" lcp0 0 "set_narrow fresh_env 0 41"]
      default_transfer [of "branch_insn OPCODE_IF_EQ [0, 1]" lcp0 0 "set_narrow fresh_env 0 41"]
      nb ne
    by (simp add: add_lit8_def other_insn_def branch_insn_def lcp_off_def cfg_none_def
        dest_is_wide_def opcode_dest_is_wide_def)
qed

subsection \<open>Register copies\<close>

text \<open>
  C7. For a register copy (\<open>MOVE\<close> and \<open>MOVE_OBJECT\<close> narrow, \<open>MOVE_WIDE\<close>
  wide): when the source holds an exact constant of the copy's width the destination
  becomes that constant; in every other case, also that of an exact constant of the
  other width, the destination becomes Top and carries the width tag of the copy.
\<close>

theorem register_copy:
  assumes s: "srcs inst = s # rest" and d: "dest_reg inst = Some d"
  shows
    "(opcode inst \<in> {OPCODE_MOVE, OPCODE_MOVE_OBJECT} \<longrightarrow>
        (get env s = NarrowConstant c \<longrightarrow>
           analyze_instruction self inst env = Inr (set_narrow env d c) \<and>
           get (set_narrow env d c) d = NarrowConstant c) \<and>
        ((\<forall>c'. get env s \<noteq> NarrowConstant c') \<longrightarrow>
           analyze_instruction self inst env = Inr (set_top env d False) \<and>
           (\<not> is_bottom env \<longrightarrow>
              get (set_top env d False) d = Top \<and> \<not> width_tag (set_top env d False) d))) \<and>
     (opcode inst = OPCODE_MOVE_WIDE \<longrightarrow>
        (get env s = WideConstant c64 \<longrightarrow>
           analyze_instruction self inst env = Inr (set_wide env d c64) \<and>
           get (set_wide env d c64) d = WideConstant c64) \<and>
        ((\<forall>c'. get env s \<noteq> WideConstant c') \<longrightarrow>
           analyze_instruction self inst env = Inr (set_top env d True) \<and>
           (\<not> is_bottom env \<longrightarrow>
              get (set_top env d True) d = Top \<and> width_tag (set_top env d True) d)))"
proof -
  have n1: "opcode inst \<in> {OPCODE_MOVE, OPCODE_MOVE_OBJECT} \<longrightarrow>
        get env s = NarrowConstant c \<longrightarrow>
           analyze_instruction self inst env = Inr (set_narrow env d c) \<and>
           get (set_narrow env d c) d = NarrowConstant c"
  proof (intro impI)
    assume op: "opcode inst \<in> {OPCODE_MOVE, OPCODE_MOVE_OBJECT}"
      and g: "get env s = NarrowConstant c"
    have nb: "\<not> is_bottom env" using g get_not_Bottom_not_is_bottom [of env s] by simp
    have "analyze_instruction self inst env = Inr (set_narrow env d c)"
      using op analyze_non_branch_narrow_constant [OF s d g, of Some Some]
      by (auto simp: analyze_instruction_def)
    then show "analyze_instruction self inst env = Inr (set_narrow env d c) \<and>
           get (set_narrow env d c) d = NarrowConstant c"
      using nb by (simp add: get_set_narrow)
  qed
  have n2: "opcode inst \<in> {OPCODE_MOVE, OPCODE_MOVE_OBJECT} \<longrightarrow>
        (\<forall>c'. get env s \<noteq> NarrowConstant c') \<longrightarrow>
           analyze_instruction self inst env = Inr (set_top env d False) \<and>
           (\<not> is_bottom env \<longrightarrow>
              get (set_top env d False) d = Top \<and> \<not> width_tag (set_top env d False) d)"
  proof (intro impI)
    assume op: "opcode inst \<in> {OPCODE_MOVE, OPCODE_MOVE_OBJECT}"
      and g: "\<forall>c'. get env s \<noteq> NarrowConstant c'"
    have "\<not> is_narrow_constant env s"
      using g by (simp add: is_narrow_constant_def split: AbstractValue.splits)
    then have "analyze_non_branch inst env False Some Some = Inr (set_top env d False)"
      using analyze_non_branch_unknown [OF s d, of False env] by simp
    then show "analyze_instruction self inst env = Inr (set_top env d False) \<and>
           (\<not> is_bottom env \<longrightarrow>
              get (set_top env d False) d = Top \<and> \<not> width_tag (set_top env d False) d)"
      using op by (auto simp: analyze_instruction_def get_set_top width_tag_set_top)
  qed
  have w1: "opcode inst = OPCODE_MOVE_WIDE \<longrightarrow>
        get env s = WideConstant c64 \<longrightarrow>
           analyze_instruction self inst env = Inr (set_wide env d c64) \<and>
           get (set_wide env d c64) d = WideConstant c64"
  proof (intro impI)
    assume op: "opcode inst = OPCODE_MOVE_WIDE" and g: "get env s = WideConstant c64"
    have nb: "\<not> is_bottom env" using g get_not_Bottom_not_is_bottom [of env s] by simp
    have "analyze_instruction self inst env = Inr (set_wide env d c64)"
      using op analyze_non_branch_wide_constant [OF s d g, of Some Some]
      by (simp add: analyze_instruction_def)
    then show "analyze_instruction self inst env = Inr (set_wide env d c64) \<and>
           get (set_wide env d c64) d = WideConstant c64"
      using nb by (simp add: get_set_wide)
  qed
  have w2: "opcode inst = OPCODE_MOVE_WIDE \<longrightarrow>
        (\<forall>c'. get env s \<noteq> WideConstant c') \<longrightarrow>
           analyze_instruction self inst env = Inr (set_top env d True) \<and>
           (\<not> is_bottom env \<longrightarrow>
              get (set_top env d True) d = Top \<and> width_tag (set_top env d True) d)"
  proof (intro impI)
    assume op: "opcode inst = OPCODE_MOVE_WIDE"
      and g: "\<forall>c'. get env s \<noteq> WideConstant c'"
    have "\<not> is_wide_constant env s"
      using g by (simp add: is_wide_constant_def split: AbstractValue.splits)
    then have "analyze_non_branch inst env True Some Some = Inr (set_top env d True)"
      using analyze_non_branch_unknown [OF s d, of True env] by simp
    then show "analyze_instruction self inst env = Inr (set_top env d True) \<and>
           (\<not> is_bottom env \<longrightarrow>
              get (set_top env d True) d = Top \<and> width_tag (set_top env d True) d)"
      using op by (simp add: analyze_instruction_def get_set_top width_tag_set_top)
  qed
  from n1 n2 w1 w2 show ?thesis by blast
qed

theorem register_copy_witness:
  "analyze_instruction lcp0 (move_insn OPCODE_MOVE 1 0) (set_narrow fresh_env 0 7) =
     Inr (set_narrow (set_narrow fresh_env 0 7) 1 7) \<and>
   analyze_instruction lcp0 (move_insn OPCODE_MOVE_OBJECT 1 0) (set_narrow fresh_env 0 7) =
     Inr (set_narrow (set_narrow fresh_env 0 7) 1 7) \<and>
   analyze_instruction lcp0 (move_insn OPCODE_MOVE_WIDE 1 0) (set_wide fresh_env 0 7) =
     Inr (set_wide (set_wide fresh_env 0 7) 1 7) \<and>
   analyze_instruction lcp0 (move_insn OPCODE_MOVE 1 0) (set_wide fresh_env 0 7) =
     Inr (set_top (set_wide fresh_env 0 7) 1 False) \<and>
   analyze_instruction lcp0 (move_insn OPCODE_MOVE_WIDE 1 0) (set_narrow fresh_env 0 7) =
     Inr (set_top (set_narrow fresh_env 0 7) 1 True) \<and>
   analyze_instruction lcp0 (move_insn OPCODE_MOVE 1 0) fresh_env =
     Inr (set_top fresh_env 1 False) \<and>
   \<not> width_tag (set_top (set_wide fresh_env 0 7) 1 False) 1 \<and>
   width_tag (set_top (set_narrow fresh_env 0 7) 1 True) 1"
proof -
  have gn: "get (set_narrow fresh_env 0 7) 0 = NarrowConstant 7"
    by (simp add: set_narrow_def fresh_env_def set_value_def get_def)
  have gw: "get (set_wide fresh_env 0 7) 0 = WideConstant 7"
    by (simp add: set_wide_def fresh_env_def set_value_def get_def)
  have gt: "get fresh_env 0 = Top"
    by (simp add: fresh_env_def get_def)
  have nb: "\<not> is_bottom (set_narrow fresh_env 0 7)" "\<not> is_bottom (set_wide fresh_env 0 7)"
    by (simp_all add: set_narrow_def set_wide_def fresh_env_def set_value_def is_bottom_def)
  have s: "\<And>op. srcs (move_insn op 1 0) = 0 # []" by (simp add: move_insn_def)
  have d: "\<And>op. dest_reg (move_insn op 1 0) = Some 1" by (simp add: move_insn_def)
  show ?thesis
    using register_copy [OF s d, of OPCODE_MOVE "set_narrow fresh_env 0 7" 7 lcp0 0]
      register_copy [OF s d, of OPCODE_MOVE_OBJECT "set_narrow fresh_env 0 7" 7 lcp0 0]
      register_copy [OF s d, of OPCODE_MOVE_WIDE "set_wide fresh_env 0 7" 0 lcp0 7]
      register_copy [OF s d, of OPCODE_MOVE "set_wide fresh_env 0 7" 0 lcp0 0]
      register_copy [OF s d, of OPCODE_MOVE_WIDE "set_narrow fresh_env 0 7" 0 lcp0 0]
      register_copy [OF s d, of OPCODE_MOVE fresh_env 0 lcp0 0]
      gn gw gt nb
    by (simp add: move_insn_def)
qed

subsection \<open>Replacing a decided branch\<close>




subsection \<open>Materializing constants\<close>

text \<open>
  C9. For \<open>MOVE\<close> and \<open>MOVE_WIDE\<close> with \<open>replace_moves_with_consts\<close> on, and
  for the adds with an immediate with \<open>fold_arithmetic\<close> on, on the environment after
  the analyzer has processed the instruction: when the destination register holds an
  exact constant of the matching width, the rewriter appends the pair of the instruction
  and a literal load (\<open>CONST\<close> for narrow, \<open>CONST_WIDE\<close> for wide) of that constant
  into the same destination, and the count of materialized constants goes up by one;
  when the destination is not such a constant, or the option is off, the pass object is
  returned as it was.
\<close>

theorem constant_materialization:
  assumes d: "dest_reg inst = Some d"
  shows
    "(opcode inst = OPCODE_MOVE \<and> replace_moves_with_consts (m_config self) \<or>
      opcode inst \<in> {OPCODE_ADD_INT_LIT8, OPCODE_ADD_INT_LIT16} \<and>
        fold_arithmetic (m_config self) \<longrightarrow>
        (get env d = NarrowConstant c \<longrightarrow>
           simplify_instruction self inst env =
             Inr (self\<lparr>m_insn_replacements :=
                         m_insn_replacements self @
                           [(inst, set_dest (set_literal (new_IRInstruction OPCODE_CONST)
                                                (scast c)) d)],
                       m_materialized_consts := m_materialized_consts self + 1\<rparr>)) \<and>
        (\<not> is_narrow_constant env d \<longrightarrow> simplify_instruction self inst env = Inr self)) \<and>
     (opcode inst = OPCODE_MOVE_WIDE \<and> replace_moves_with_consts (m_config self) \<longrightarrow>
        (get env d = WideConstant c64 \<longrightarrow>
           simplify_instruction self inst env =
             Inr (self\<lparr>m_insn_replacements :=
                         m_insn_replacements self @
                           [(inst, set_dest (set_literal (new_IRInstruction OPCODE_CONST_WIDE)
                                                c64) d)],
                       m_materialized_consts := m_materialized_consts self + 1\<rparr>)) \<and>
        (\<not> is_wide_constant env d \<longrightarrow> simplify_instruction self inst env = Inr self)) \<and>
     (opcode inst \<in> {OPCODE_MOVE, OPCODE_MOVE_WIDE} \<and>
        \<not> replace_moves_with_consts (m_config self) \<or>
      opcode inst \<in> {OPCODE_ADD_INT_LIT8, OPCODE_ADD_INT_LIT16} \<and>
        \<not> fold_arithmetic (m_config self) \<longrightarrow>
        simplify_instruction self inst env = Inr self) \<and>
     set_dest (set_literal (new_IRInstruction OPCODE_CONST) (scast c)) d =
       \<lparr>opcode = OPCODE_CONST, srcs = [], dest_reg = Some d, literal = scast c,
        target = None\<rparr> \<and>
     sint (scast c :: int64) = sint c \<and>
     set_dest (set_literal (new_IRInstruction OPCODE_CONST_WIDE) c64) d =
       \<lparr>opcode = OPCODE_CONST_WIDE, srcs = [], dest_reg = Some d, literal = c64,
        target = None\<rparr>"
proof -
  have n: "opcode inst = OPCODE_MOVE \<and> replace_moves_with_consts (m_config self) \<or>
      opcode inst \<in> {OPCODE_ADD_INT_LIT8, OPCODE_ADD_INT_LIT16} \<and>
        fold_arithmetic (m_config self) \<longrightarrow>
        simplify_instruction self inst env = simplify_non_branch self inst env False"
    by (auto simp: simplify_instruction_def)
  have w: "opcode inst = OPCODE_MOVE_WIDE \<and> replace_moves_with_consts (m_config self) \<longrightarrow>
        simplify_instruction self inst env = simplify_non_branch self inst env True"
    by (auto simp: simplify_instruction_def)
  have n1: "get env d = NarrowConstant c \<longrightarrow>
           simplify_non_branch self inst env False =
             Inr (self\<lparr>m_insn_replacements :=
                         m_insn_replacements self @
                           [(inst, set_dest (set_literal (new_IRInstruction OPCODE_CONST)
                                                (scast c)) d)],
                       m_materialized_consts := m_materialized_consts self + 1\<rparr>)"
    using d by (simp add: simplify_non_branch_def dest_def is_narrow_constant_def get_narrow_def)
  have n2: "\<not> is_narrow_constant env d \<longrightarrow> simplify_non_branch self inst env False = Inr self"
    using d by (simp add: simplify_non_branch_def dest_def)
  have w1: "get env d = WideConstant c64 \<longrightarrow>
           simplify_non_branch self inst env True =
             Inr (self\<lparr>m_insn_replacements :=
                         m_insn_replacements self @
                           [(inst, set_dest (set_literal (new_IRInstruction OPCODE_CONST_WIDE)
                                                c64) d)],
                       m_materialized_consts := m_materialized_consts self + 1\<rparr>)"
    using d by (simp add: simplify_non_branch_def dest_def is_wide_constant_def get_wide_def)
  have w2: "\<not> is_wide_constant env d \<longrightarrow> simplify_non_branch self inst env True = Inr self"
    using d by (simp add: simplify_non_branch_def dest_def)
  have off: "opcode inst \<in> {OPCODE_MOVE, OPCODE_MOVE_WIDE} \<and>
        \<not> replace_moves_with_consts (m_config self) \<or>
      opcode inst \<in> {OPCODE_ADD_INT_LIT8, OPCODE_ADD_INT_LIT16} \<and>
        \<not> fold_arithmetic (m_config self) \<longrightarrow>
        simplify_instruction self inst env = Inr self"
    by (auto simp: simplify_instruction_def)
  have r1: "set_dest (set_literal (new_IRInstruction OPCODE_CONST) (scast c)) d =
       \<lparr>opcode = OPCODE_CONST, srcs = [], dest_reg = Some d, literal = scast c,
        target = None\<rparr>"
    by (simp add: set_dest_def set_literal_def new_IRInstruction_def)
  have r2: "set_dest (set_literal (new_IRInstruction OPCODE_CONST_WIDE) c64) d =
       \<lparr>opcode = OPCODE_CONST_WIDE, srcs = [], dest_reg = Some d, literal = c64,
        target = None\<rparr>"
    by (simp add: set_dest_def set_literal_def new_IRInstruction_def)
  note r3 = sint_scast_narrow [of c]
  from n w n1 n2 w1 w2 off r1 r2 r3 show ?thesis by metis
qed

theorem constant_materialization_witness:
  "analyze_instruction lcp0 (const_insn 0 7) fresh_env = Inr (set_narrow fresh_env 0 7) \<and>
   analyze_instruction lcp0 (move_insn OPCODE_MOVE 1 0) (set_narrow fresh_env 0 7) =
     Inr (set_narrow (set_narrow fresh_env 0 7) 1 7) \<and>
   simplify_instruction lcp0 (move_insn OPCODE_MOVE 1 0)
       (set_narrow (set_narrow fresh_env 0 7) 1 7) =
     Inr (lcp0\<lparr>m_insn_replacements := [(move_insn OPCODE_MOVE 1 0, const_insn 1 7)],
               m_materialized_consts := 1\<rparr>) \<and>
   simplify_instruction lcp0 (move_insn OPCODE_MOVE_WIDE 1 0)
       (set_wide (set_wide fresh_env 0 7) 1 7) =
     Inr (lcp0\<lparr>m_insn_replacements :=
                 [(move_insn OPCODE_MOVE_WIDE 1 0,
                   \<lparr>opcode = OPCODE_CONST_WIDE, srcs = [], dest_reg = Some 1,
                    literal = 7, target = None\<rparr>)],
               m_materialized_consts := 1\<rparr>) \<and>
   simplify_instruction lcp0 (add_lit8 0 0 1)
       (set_top (set_narrow fresh_env 0 INT32_MAX) 0 False) = Inr lcp0 \<and>
   simplify_instruction lcp0 (add_lit8 1 0 1)
       (set_narrow (set_narrow fresh_env 0 41) 1 42) =
     Inr (lcp0\<lparr>m_insn_replacements := [(add_lit8 1 0 1, const_insn 1 42)],
               m_materialized_consts := 1\<rparr>) \<and>
   simplify_instruction lcp_off (move_insn OPCODE_MOVE 1 0)
       (set_narrow (set_narrow fresh_env 0 7) 1 7) = Inr lcp_off"
proof -
  let ?e7 = "set_narrow (set_narrow fresh_env 0 7) 1 7"
  let ?w7 = "set_wide (set_wide fresh_env 0 7) 1 7"
  let ?top = "set_top (set_narrow fresh_env 0 INT32_MAX) 0 False"
  let ?e42 = "set_narrow (set_narrow fresh_env 0 41) 1 42"
  have a1: "analyze_instruction lcp0 (const_insn 0 7) fresh_env = Inr (set_narrow fresh_env 0 7)"
    by (simp add: analyze_instruction_def const_insn_def dest_def get_literal_def)
  have a2: "analyze_instruction lcp0 (move_insn OPCODE_MOVE 1 0) (set_narrow fresh_env 0 7) = Inr ?e7"
    by (simp add: analyze_instruction_def analyze_non_branch_def move_insn_def src_def dest_def
        is_narrow_constant_def get_narrow_def set_narrow_def fresh_env_def set_value_def get_def)
  have g7: "get ?e7 1 = NarrowConstant 7"
    by (simp add: set_narrow_def fresh_env_def set_value_def get_def)
  have gw: "get ?w7 1 = WideConstant 7"
    by (simp add: set_wide_def fresh_env_def set_value_def get_def)
  have gt: "\<not> is_narrow_constant ?top 0"
    by (simp add: is_narrow_constant_def set_top_def set_narrow_def fresh_env_def set_value_def
        get_def)
  have g42: "get ?e42 1 = NarrowConstant 42"
    by (simp add: set_narrow_def fresh_env_def set_value_def get_def)
  have dm: "\<And>op. dest_reg (move_insn op 1 0) = Some 1" by (simp add: move_insn_def)
  have da: "\<And>d. dest_reg (add_lit8 d 0 1) = Some d" by (simp add: add_lit8_def)
  have c1: "simplify_instruction lcp0 (move_insn OPCODE_MOVE 1 0) ?e7 =
     Inr (lcp0\<lparr>m_insn_replacements := [(move_insn OPCODE_MOVE 1 0, const_insn 1 7)],
               m_materialized_consts := 1\<rparr>)"
    using constant_materialization [OF dm, of OPCODE_MOVE lcp0 ?e7 7 0] g7
    by (simp add: move_insn_def lcp0_def cfg_all_def const_insn_def)
  have c2: "simplify_instruction lcp0 (move_insn OPCODE_MOVE_WIDE 1 0) ?w7 =
     Inr (lcp0\<lparr>m_insn_replacements :=
                 [(move_insn OPCODE_MOVE_WIDE 1 0,
                   \<lparr>opcode = OPCODE_CONST_WIDE, srcs = [], dest_reg = Some 1,
                    literal = 7, target = None\<rparr>)],
               m_materialized_consts := 1\<rparr>)"
    using constant_materialization [OF dm, of OPCODE_MOVE_WIDE lcp0 ?w7 0 7] gw
    by (simp add: move_insn_def lcp0_def cfg_all_def)
  have c3: "simplify_instruction lcp0 (add_lit8 0 0 1) ?top = Inr lcp0"
    using constant_materialization [OF da, of 0 lcp0 ?top 0 0] gt
    by (simp add: add_lit8_def lcp0_def cfg_all_def)
  have c4: "simplify_instruction lcp0 (add_lit8 1 0 1) ?e42 =
     Inr (lcp0\<lparr>m_insn_replacements := [(add_lit8 1 0 1, const_insn 1 42)],
               m_materialized_consts := 1\<rparr>)"
    using constant_materialization [OF da, of 1 lcp0 ?e42 42 0] g42
    by (simp add: add_lit8_def lcp0_def cfg_all_def const_insn_def)
  have c5: "simplify_instruction lcp_off (move_insn OPCODE_MOVE 1 0) ?e7 = Inr lcp_off"
    using constant_materialization [OF dm, of OPCODE_MOVE lcp_off ?e7 7 0]
    by (simp add: move_insn_def lcp_off_def cfg_none_def)
  from a1 a2 c1 c2 c3 c4 c5 show ?thesis by blast
qed

subsection \<open>Object copies are analyzed, not materialized\<close>

text \<open>
  C10. \<open>MOVE_OBJECT\<close> is analyzed like a narrow copy, so its destination becomes an
  exact narrow constant when its source holds one; the rewriter has no case for it, so
  on every environment, also the one the analyzer has just produced, and whatever the
  options are, it appends no pair and leaves both counts as they were.
\<close>

theorem move_object_not_materialized:
  assumes op: "opcode inst = OPCODE_MOVE_OBJECT"
  shows
    "simplify_instruction self inst env = Inr self \<and>
     (srcs inst = s # rest \<and> dest_reg inst = Some d \<and> get env0 s = NarrowConstant c \<longrightarrow>
        analyze_instruction self inst env0 = Inr (set_narrow env0 d c) \<and>
        get (set_narrow env0 d c) d = NarrowConstant c \<and>
        is_narrow_constant (set_narrow env0 d c) d \<and>
        simplify_instruction self inst (set_narrow env0 d c) = Inr self)"
proof -
  have simp_none: "simplify_instruction self inst e = Inr self" for e
    using op by (simp add: simplify_instruction_def)
  have an: "srcs inst = s # rest \<and> dest_reg inst = Some d \<and> get env0 s = NarrowConstant c \<longrightarrow>
        analyze_instruction self inst env0 = Inr (set_narrow env0 d c) \<and>
        get (set_narrow env0 d c) d = NarrowConstant c \<and>
        is_narrow_constant (set_narrow env0 d c) d"
  proof (intro impI, elim conjE)
    assume s: "srcs inst = s # rest" and d: "dest_reg inst = Some d"
      and g: "get env0 s = NarrowConstant c"
    have nb: "\<not> is_bottom env0" using g get_not_Bottom_not_is_bottom [of env0 s] by simp
    have run: "analyze_instruction self inst env0 = Inr (set_narrow env0 d c)"
      using op analyze_non_branch_narrow_constant [OF s d g, of Some Some]
      by (simp add: analyze_instruction_def)
    have rd: "get (set_narrow env0 d c) d = NarrowConstant c"
      using nb by (simp add: get_set_narrow)
    then have "is_narrow_constant (set_narrow env0 d c) d"
      by (simp add: is_narrow_constant_def)
    with run rd show "analyze_instruction self inst env0 = Inr (set_narrow env0 d c) \<and>
        get (set_narrow env0 d c) d = NarrowConstant c \<and>
        is_narrow_constant (set_narrow env0 d c) d" by simp
  qed
  from simp_none an show ?thesis by blast
qed

theorem move_object_not_materialized_witness:
  "replace_moves_with_consts (m_config lcp0) \<and>
   analyze_instruction lcp0 (move_insn OPCODE_MOVE_OBJECT 1 0) (set_narrow fresh_env 0 7) =
     Inr (set_narrow (set_narrow fresh_env 0 7) 1 7) \<and>
   get (set_narrow (set_narrow fresh_env 0 7) 1 7) 1 = NarrowConstant 7 \<and>
   simplify_instruction lcp0 (move_insn OPCODE_MOVE_OBJECT 1 0)
       (set_narrow (set_narrow fresh_env 0 7) 1 7) = Inr lcp0"
proof -
  have op: "opcode (move_insn OPCODE_MOVE_OBJECT 1 0) = OPCODE_MOVE_OBJECT"
    by (simp add: move_insn_def)
  have g: "get (set_narrow fresh_env 0 7) 0 = NarrowConstant 7"
    by (simp add: set_narrow_def fresh_env_def set_value_def get_def)
  show ?thesis
    using move_object_not_materialized [OF op, of lcp0 "set_narrow (set_narrow fresh_env 0 7) 1 7"
        0 "[]" 1 "set_narrow fresh_env 0 7" 7] g
    by (simp add: move_insn_def lcp0_def cfg_all_def)
qed

end
